theory Spec2Isabelle
  imports Main "HOL-Library.AList"
begin

section \<open>Python values and exceptions\<close>

text \<open>
  The arguments of the CRUD operations are dynamically typed: the code itself tests
  \<^verbatim>\<open>isinstance(x, dict)\<close> and the truth value of what it is given. They are therefore
  values of a tagged union. A dict is an association list from field names to values
  (Python dicts keep insertion order; keys are unique in a well-formed one).
  Floating-point numbers are left out.
\<close>

datatype pyval =
    PNone
  | PBool bool
  | PInt int
  | PStr string
  | PObjectId string
  | PList "pyval list"
  | PDict "(string \<times> pyval) list"

type_synonym document = "(string \<times> pyval) list"

text \<open>\<^verbatim>\<open>isinstance(x, dict)\<close>\<close>

fun isinstance_dict :: "pyval \<Rightarrow> bool" where
  "isinstance_dict (PDict _) = True"
| "isinstance_dict _ = False"

text \<open>\<^verbatim>\<open>isinstance(x, int)\<close>: \<^verbatim>\<open>bool\<close> is a subclass of \<^verbatim>\<open>int\<close>.\<close>

fun isinstance_int :: "pyval \<Rightarrow> bool" where
  "isinstance_int (PInt _) = True"
| "isinstance_int (PBool _) = True"
| "isinstance_int _ = False"

text \<open>The truth value of a Python object, as \<^verbatim>\<open>not x\<close> and \<^verbatim>\<open>if x:\<close> read it.\<close>

fun truthy :: "pyval \<Rightarrow> bool" where
  "truthy PNone = False"
| "truthy (PBool b) = b"
| "truthy (PInt n) = (n \<noteq> 0)"
| "truthy (PStr s) = (s \<noteq> [])"
| "truthy (PObjectId _) = True"
| "truthy (PList xs) = (xs \<noteq> [])"
| "truthy (PDict kvs) = (kvs \<noteq> [])"

text \<open>\<^verbatim>\<open>x > 0\<close> for an \<^verbatim>\<open>int\<close> (\<^verbatim>\<open>True\<close> counts as 1); only evaluated behind the
  \<^verbatim>\<open>isinstance(x, int)\<close> test.\<close>

fun gt_zero :: "pyval \<Rightarrow> bool" where
  "gt_zero (PInt n) = (0 < n)"
| "gt_zero (PBool b) = b"
| "gt_zero _ = False"

text \<open>
  The exceptions the two modules raise or let through. \<^verbatim>\<open>ServerSelectionTimeoutError\<close>
  is a subclass of \<^verbatim>\<open>PyMongoError\<close>; the others are not.
\<close>

datatype error =
    ValueError string
  | RuntimeError string
  | TypeError string
  | ServerSelectionTimeoutError string
  | PyMongoError string

fun isinstance_PyMongoError :: "error \<Rightarrow> bool" where
  "isinstance_PyMongoError (PyMongoError _) = True"
| "isinstance_PyMongoError (ServerSelectionTimeoutError _) = True"
| "isinstance_PyMongoError _ = False"

text \<open>\<^verbatim>\<open>str(e)\<close>: the message of the exception.\<close>

fun str_of :: "error \<Rightarrow> string" where
  "str_of (ValueError s) = s"
| "str_of (RuntimeError s) = s"
| "str_of (TypeError s) = s"
| "str_of (ServerSelectionTimeoutError s) = s"
| "str_of (PyMongoError s) = s"

section \<open>The store client and the world around the repository\<close>

text \<open>
  The document store is external. What the repository does to it is recorded as the
  sequence of calls made on the store client; what the store answers is a parameter of
  every operation: a \<open>mongo\<close> gives, for the history of calls up to and including the
  latest one, whether that call raises and what its result holds.
\<close>

record client_args =
  host :: string
  port :: int
  username :: string
  password :: string
  authSource :: string
  authMechanism :: "string option"
  directConnection :: "bool option"
  serverSelectionTimeoutMS :: int

type_synonym coll = "string \<times> string"

datatype call =
    MongoClient client_args
  | Ping
  | InsertOne coll pyval
  | Find coll pyval pyval
  | CursorSort "(string \<times> int) list"
  | CursorLimit pyval
  | CursorList
  | UpdateOne coll pyval pyval bool
  | UpdateMany coll pyval pyval bool
  | DeleteOne coll pyval
  | DeleteMany coll pyval
  | ClientClose

text \<open>
  \<open>raises\<close> tells whether the latest call raises, and what. The other fields are
  what the result of the latest call holds: \<^verbatim>\<open>acknowledged\<close> and \<^verbatim>\<open>inserted_id\<close>
  of an insert, \<^verbatim>\<open>modified_count\<close> and \<^verbatim>\<open>deleted_count\<close> of an update and a
  delete (\<^verbatim>\<open>None\<close> when the store reports no count), and the documents a cursor
  yields when it is read to its end. That \<^verbatim>\<open>insert_one\<close> adds an \<^verbatim>\<open>_id\<close> to the
  dict it is given is not modelled: the arguments of the operations are values.
\<close>

record mongo =
  raises :: "call list \<Rightarrow> error option"
  acknowledged :: "call list \<Rightarrow> bool"
  inserted_id :: "call list \<Rightarrow> pyval"
  modified_count :: "call list \<Rightarrow> int option"
  deleted_count :: "call list \<Rightarrow> int option"
  documents :: "call list \<Rightarrow> document list"

datatype level = INFO | ERROR

datatype logarg = AStr string | AInt int | AVal pyval | ABool bool | AErr error

text \<open>
  The world: the calls made on the store client so far, the lines printed, the records
  handed to the logger (level, message, arguments), and the heap of dict objects that
  \<open>read\<close> hands out (an address is an index into it).
\<close>

record world =
  calls :: "call list"
  stdout :: "string list"
  logged :: "(level \<times> string \<times> logarg list) list"
  heap :: "document list"

definition store_call :: "mongo \<Rightarrow> call \<Rightarrow> world \<Rightarrow> error option \<times> world" where
  "store_call m c w = (let h = calls w @ [c] in (raises m h, w\<lparr>calls := h\<rparr>))"

definition print :: "string \<Rightarrow> world \<Rightarrow> world" where
  "print s w = w\<lparr>stdout := stdout w @ [s]\<rparr>"

definition logger :: "level \<Rightarrow> string \<Rightarrow> logarg list \<Rightarrow> world \<Rightarrow> world" where
  "logger l msg args w = w\<lparr>logged := logged w @ [(l, msg, args)]\<rparr>"

text \<open>The driver builds a new dict object for every document a cursor yields.\<close>

definition new_dicts :: "document list \<Rightarrow> world \<Rightarrow> nat list \<times> world" where
  "new_dicts docs w =
     ([length (heap w) ..< length (heap w) + length docs], w\<lparr>heap := heap w @ docs\<rparr>)"

section \<open>The baseline variant (downloads/original/CRUD\_Python\_Module.py)\<close>

text \<open>
  The instance: the client handle (the arguments it was built with), the database name
  and the collection (database name and collection name). Indexing a client or a
  database by name does no I/O.
\<close>

record orig_shelter =
  orig_client :: client_args
  orig_database :: string
  orig_collection :: coll

definition orig_init ::
  "mongo \<Rightarrow> string \<Rightarrow> string \<Rightarrow> string \<Rightarrow> int \<Rightarrow> string \<Rightarrow> string \<Rightarrow> string \<Rightarrow> string \<Rightarrow> int
     \<Rightarrow> world \<Rightarrow> (error + orig_shelter) \<times> world" where
  "orig_init m user passwd hst prt db col auth_source auth_mechanism timeout_ms w =
     (if user = [] \<or> passwd = [] then
        (Inl (ValueError ''Both 'user' and 'password' are required.''), w)
      else
        let args = \<lparr>host = hst, port = prt, username = user, password = passwd,
                    authSource = auth_source, authMechanism = Some auth_mechanism,
                    directConnection = Some True, serverSelectionTimeoutMS = timeout_ms\<rparr>;
            (r1, w1) = store_call m (MongoClient args) w
        in case r1 of
             Some e \<Rightarrow> (Inl e, w1)
           | None \<Rightarrow>
               let (r2, w2) = store_call m Ping w1
               in case r2 of
                    Some e \<Rightarrow> (Inl e, w2)
                  | None \<Rightarrow>
                      (Inr \<lparr>orig_client = args, orig_database = db,
                            orig_collection = (db, col)\<rparr>, w2))"

text \<open>The body of the \<^verbatim>\<open>try\<close> of \<open>create\<close>, then \<open>create\<close> with its handler.\<close>

definition orig_create_try :: "mongo \<Rightarrow> orig_shelter \<Rightarrow> pyval \<Rightarrow> world \<Rightarrow> (error + bool) \<times> world" where
  "orig_create_try m s data w =
     (let (r, w1) = store_call m (InsertOne (orig_collection s) data) w
      in case r of
           Some e \<Rightarrow> (Inl e, w1)
         | None \<Rightarrow> (Inr (acknowledged m (calls w1) \<and> truthy (inserted_id m (calls w1))), w1))"

definition orig_create :: "mongo \<Rightarrow> orig_shelter \<Rightarrow> pyval \<Rightarrow> world \<Rightarrow> (error + bool) \<times> world" where
  "orig_create m s data w =
     (if \<not> isinstance_dict data \<or> \<not> truthy data then
        (Inl (ValueError '''data' must be a non-empty dict.''), w)
      else
        case orig_create_try m s data w of
          (Inr b, w1) \<Rightarrow> (Inr b, w1)
        | (Inl e, w1) \<Rightarrow>
            if isinstance_PyMongoError e then
              (Inr False, print (''[ERROR] Create failed: '' @ str_of e) w1)
            else (Inl e, w1))"

text \<open>
  \<open>read\<close>: \<^verbatim>\<open>find\<close>, then \<^verbatim>\<open>sort\<close> if the sort argument is true (a non-empty
  sequence), then \<^verbatim>\<open>limit\<close> if the limit is an int above zero, then the cursor is
  read to its end. Each of the four is a call on the client that may raise.
\<close>

definition orig_read_try ::
  "mongo \<Rightarrow> orig_shelter \<Rightarrow> pyval \<Rightarrow> pyval \<Rightarrow> pyval \<Rightarrow> (string \<times> int) list option
     \<Rightarrow> world \<Rightarrow> (error + nat list) \<times> world" where
  "orig_read_try m s query projection limit sort_arg w =
     (let (r0, w0) = store_call m (Find (orig_collection s) query projection) w
      in case r0 of
           Some e \<Rightarrow> (Inl e, w0)
         | None \<Rightarrow>
      let (r1, w1) = (case sort_arg of
                        Some (x # xs) \<Rightarrow> store_call m (CursorSort (x # xs)) w0
                      | _ \<Rightarrow> (None, w0))
      in case r1 of
           Some e \<Rightarrow> (Inl e, w1)
         | None \<Rightarrow>
      let (r2, w2) = (if isinstance_int limit \<and> gt_zero limit
                      then store_call m (CursorLimit limit) w1 else (None, w1))
      in case r2 of
           Some e \<Rightarrow> (Inl e, w2)
         | None \<Rightarrow>
      let (r3, w3) = store_call m CursorList w2
      in case r3 of
           Some e \<Rightarrow> (Inl e, w3)
         | None \<Rightarrow>
      let (refs, w4) = new_dicts (documents m (calls w3)) w3
      in (Inr refs, w4))"

definition orig_read ::
  "mongo \<Rightarrow> orig_shelter \<Rightarrow> pyval \<Rightarrow> pyval \<Rightarrow> pyval \<Rightarrow> (string \<times> int) list option
     \<Rightarrow> world \<Rightarrow> (error + nat list) \<times> world" where
  "orig_read m s query0 projection limit sort_arg w =
     (let query = (if query0 = PNone then PDict [] else query0)
      in if \<not> isinstance_dict query then
           (Inl (ValueError '''query' must be a dict.''), w)
         else
           case orig_read_try m s query projection limit sort_arg w of
             (Inr refs, w1) \<Rightarrow> (Inr refs, w1)
           | (Inl e, w1) \<Rightarrow>
               if isinstance_PyMongoError e then
                 (Inr [], print (''[ERROR] Read failed: '' @ str_of e) w1)
               else (Inl e, w1))"

text \<open>\<^verbatim>\<open>int(res.modified_count)\<close>: \<^verbatim>\<open>int(None)\<close> raises a \<^verbatim>\<open>TypeError\<close>.\<close>

definition int_none_message :: string where
  "int_none_message =
     ''int() argument must be a string, a bytes-like object or a real number, not 'NoneType'' @ [CHR 0x27]"

definition py_int :: "int option \<Rightarrow> error + int" where
  "py_int c = (case c of
                 None \<Rightarrow> Inl (TypeError int_none_message)
               | Some n \<Rightarrow> Inr n)"

definition orig_update_try ::
  "mongo \<Rightarrow> orig_shelter \<Rightarrow> pyval \<Rightarrow> pyval \<Rightarrow> bool \<Rightarrow> bool \<Rightarrow> world \<Rightarrow> (error + int) \<times> world" where
  "orig_update_try m s query update_doc many upsert w =
     (let (r, w1) = (if many
                     then store_call m (UpdateMany (orig_collection s) query update_doc upsert) w
                     else store_call m (UpdateOne (orig_collection s) query update_doc upsert) w)
      in case r of
           Some e \<Rightarrow> (Inl e, w1)
         | None \<Rightarrow> (py_int (modified_count m (calls w1)), w1))"

definition orig_update ::
  "mongo \<Rightarrow> orig_shelter \<Rightarrow> pyval \<Rightarrow> pyval \<Rightarrow> bool \<Rightarrow> bool \<Rightarrow> world \<Rightarrow> (error + int) \<times> world" where
  "orig_update m s query update_doc many upsert w =
     (if \<not> isinstance_dict query \<or> \<not> isinstance_dict update_doc then
        (Inl (ValueError '''query' and 'update_doc' must be dicts.''), w)
      else
        case orig_update_try m s query update_doc many upsert w of
          (Inr n, w1) \<Rightarrow> (Inr n, w1)
        | (Inl e, w1) \<Rightarrow>
            if isinstance_PyMongoError e then
              (Inr 0, print (''[ERROR] Update failed: '' @ str_of e) w1)
            else (Inl e, w1))"

definition orig_delete_try ::
  "mongo \<Rightarrow> orig_shelter \<Rightarrow> pyval \<Rightarrow> bool \<Rightarrow> world \<Rightarrow> (error + int) \<times> world" where
  "orig_delete_try m s query many w =
     (let (r, w1) = (if many
                     then store_call m (DeleteMany (orig_collection s) query) w
                     else store_call m (DeleteOne (orig_collection s) query) w)
      in case r of
           Some e \<Rightarrow> (Inl e, w1)
         | None \<Rightarrow> (py_int (deleted_count m (calls w1)), w1))"

definition orig_delete ::
  "mongo \<Rightarrow> orig_shelter \<Rightarrow> pyval \<Rightarrow> bool \<Rightarrow> world \<Rightarrow> (error + int) \<times> world" where
  "orig_delete m s query many w =
     (if \<not> isinstance_dict query then
        (Inl (ValueError '''query' must be a dict.''), w)
      else
        case orig_delete_try m s query many w of
          (Inr n, w1) \<Rightarrow> (Inr n, w1)
        | (Inl e, w1) \<Rightarrow>
            if isinstance_PyMongoError e then
              (Inr 0, print (''[ERROR] Delete failed: '' @ str_of e) w1)
            else (Inl e, w1))"

text \<open>\<open>close\<close>: the client's \<^verbatim>\<open>close\<close> is called on every call; whatever it raises is
  swallowed (\<^verbatim>\<open>except Exception: pass\<close>).\<close>

definition orig_close :: "mongo \<Rightarrow> orig_shelter \<Rightarrow> world \<Rightarrow> (error + unit) \<times> world" where
  "orig_close m s w =
     (let (r, w1) = store_call m ClientClose w
      in case r of
           Some e \<Rightarrow> (Inr (), w1)
         | None \<Rightarrow> (Inr (), w1))"

section \<open>The enhanced variant (downloads/enhanced/CRUD\_Python\_Module\_Enhanced.py)\<close>

text \<open>The instance: the client handle, \<^verbatim>\<open>None\<close> once closed, and the two names.\<close>

record enh_shelter =
  client :: "client_args option"
  db_name :: string
  col_name :: string

text \<open>
  The constructor reads \<^verbatim>\<open>AAC_DB_USER\<close> and \<^verbatim>\<open>AAC_DB_PASS\<close> from the process
  environment (\<^verbatim>\<open>os.getenv\<close> gives \<^verbatim>\<open>None\<close> for an unset variable); a value that is
  set and non-empty replaces the argument. The \<^verbatim>\<open>except\<close> clause logs a store failure
  and raises it again.
\<close>

definition enh_init_try ::
  "mongo \<Rightarrow> client_args \<Rightarrow> string \<Rightarrow> string \<Rightarrow> world \<Rightarrow> (error + enh_shelter) \<times> world" where
  "enh_init_try m args db col w =
     (let w0 = logger INFO ''Connecting to MongoDB at %s:%s'' [AStr (host args), AInt (port args)] w;
          (r1, w1) = store_call m (MongoClient args) w0
      in case r1 of
           Some e \<Rightarrow> (Inl e, w1)
         | None \<Rightarrow>
             let (r2, w2) = store_call m Ping w1
             in case r2 of
                  Some e \<Rightarrow> (Inl e, w2)
                | None \<Rightarrow>
                    (Inr \<lparr>client = Some args, db_name = db, col_name = col\<rparr>,
                     logger INFO ''Successfully connected to MongoDB'' [] w2))"

definition enh_init ::
  "mongo \<Rightarrow> (string \<Rightarrow> string option) \<Rightarrow> string \<Rightarrow> string \<Rightarrow> string \<Rightarrow> int \<Rightarrow> string \<Rightarrow> string
     \<Rightarrow> string \<Rightarrow> world \<Rightarrow> (error + enh_shelter) \<times> world" where
  "enh_init m environ user0 passwd0 hst prt db col auth_source w =
     (let env_user = environ ''AAC_DB_USER'';
          env_pass = environ ''AAC_DB_PASS'';
          user = (case env_user of Some u \<Rightarrow> if u \<noteq> [] then u else user0 | None \<Rightarrow> user0);
          passwd = (case env_pass of Some p \<Rightarrow> if p \<noteq> [] then p else passwd0 | None \<Rightarrow> passwd0)
      in if user = [] \<or> passwd = [] then
           (Inl (ValueError ''MongoDB user and password must be provided''), w)
         else
           case enh_init_try m
                  \<lparr>host = hst, port = prt, username = user, password = passwd,
                   authSource = auth_source, authMechanism = None,
                   directConnection = None, serverSelectionTimeoutMS = 5000\<rparr> db col w of
             (Inr s, w1) \<Rightarrow> (Inr s, w1)
           | (Inl e, w1) \<Rightarrow>
               if isinstance_PyMongoError e then
                 (Inl e, logger ERROR ''Failed to connect to MongoDB: %s'' [AErr e] w1)
               else (Inl e, w1))"

text \<open>The property \<open>collection\<close>: the guard, then the handle (no I/O).\<close>

definition enh_collection :: "enh_shelter \<Rightarrow> error + coll" where
  "enh_collection s =
     (case client s of
        None \<Rightarrow> Inl (RuntimeError ''MongoDB client is not initialized'')
      | Some c \<Rightarrow> Inr (db_name s, col_name s))"

text \<open>
  \<open>_clean_results\<close> works on dict objects: \<^verbatim>\<open>dict(doc)\<close> allocates a new dict with the
  fields of \<open>doc\<close>, \<^verbatim>\<open>d.pop("_id", None)\<close> removes the key from that new dict (and does
  nothing when the key is absent), \<^verbatim>\<open>cleaned.append(d)\<close> adds its address to the
  result. The addresses in \<open>docs\<close> are those of live objects (below the heap's length).
\<close>

fun clean_loop :: "nat list \<Rightarrow> nat list \<Rightarrow> document list \<Rightarrow> nat list \<times> document list" where
  "clean_loop [] cleaned h = (cleaned, h)"
| "clean_loop (doc # docs) cleaned h =
     (let d = length h;
          h1 = h @ [h ! doc];
          h2 = h1[d := AList.delete ''_id'' (h1 ! d)]
      in clean_loop docs (cleaned @ [d]) h2)"

definition clean_results :: "nat list \<Rightarrow> world \<Rightarrow> nat list \<times> world" where
  "clean_results docs w =
     (let (cleaned, h) = clean_loop docs [] (heap w) in (cleaned, w\<lparr>heap := h\<rparr>))"

definition enh_create_try :: "mongo \<Rightarrow> enh_shelter \<Rightarrow> pyval \<Rightarrow> world \<Rightarrow> (error + bool) \<times> world" where
  "enh_create_try m s data w =
     (case enh_collection s of
        Inl e \<Rightarrow> (Inl e, w)
      | Inr c \<Rightarrow>
          let (r, w1) = store_call m (InsertOne c data) w
          in case r of
               Some e \<Rightarrow> (Inl e, w1)
             | None \<Rightarrow>
                 let success = (acknowledged m (calls w1) \<and> truthy (inserted_id m (calls w1)))
                 in (Inr success,
                     logger INFO ''Inserted document with _id=%s (success=%s)''
                       [AVal (inserted_id m (calls w1)), ABool success] w1))"

definition enh_create :: "mongo \<Rightarrow> enh_shelter \<Rightarrow> pyval \<Rightarrow> world \<Rightarrow> (error + bool) \<times> world" where
  "enh_create m s data w =
     (if \<not> isinstance_dict data \<or> \<not> truthy data then
        (Inl (ValueError ''create() expects a non-empty dict''), w)
      else
        case enh_create_try m s data w of
          (Inr b, w1) \<Rightarrow> (Inr b, w1)
        | (Inl e, w1) \<Rightarrow>
            if isinstance_PyMongoError e then
              (Inl e, logger ERROR ''Error inserting document: %s'' [AErr e] w1)
            else (Inl e, w1))"

definition enh_read_try ::
  "mongo \<Rightarrow> enh_shelter \<Rightarrow> pyval \<Rightarrow> pyval \<Rightarrow> pyval \<Rightarrow> (string \<times> int) list option
     \<Rightarrow> world \<Rightarrow> (error + nat list) \<times> world" where
  "enh_read_try m s query projection limit sort_arg w =
     (case enh_collection s of
        Inl e \<Rightarrow> (Inl e, w)
      | Inr c \<Rightarrow>
      let (r0, w0) = store_call m (Find c query projection) w
      in case r0 of
           Some e \<Rightarrow> (Inl e, w0)
         | None \<Rightarrow>
      let (r1, w1) = (case sort_arg of
                        Some (x # xs) \<Rightarrow> store_call m (CursorSort (x # xs)) w0
                      | _ \<Rightarrow> (None, w0))
      in case r1 of
           Some e \<Rightarrow> (Inl e, w1)
         | None \<Rightarrow>
      let (r2, w2) = (if isinstance_int limit \<and> gt_zero limit
                      then store_call m (CursorLimit limit) w1 else (None, w1))
      in case r2 of
           Some e \<Rightarrow> (Inl e, w2)
         | None \<Rightarrow>
      let (r3, w3) = store_call m CursorList w2
      in case r3 of
           Some e \<Rightarrow> (Inl e, w3)
         | None \<Rightarrow>
      let (raw_results, w4) = new_dicts (documents m (calls w3)) w3;
          (results, w5) = clean_results raw_results w4
      in (Inr results,
          logger INFO ''Read %d document(s) from collection'' [AInt (int (length results))] w5))"

definition enh_read ::
  "mongo \<Rightarrow> enh_shelter \<Rightarrow> pyval \<Rightarrow> pyval \<Rightarrow> pyval \<Rightarrow> (string \<times> int) list option
     \<Rightarrow> world \<Rightarrow> (error + nat list) \<times> world" where
  "enh_read m s query0 projection limit sort_arg w =
     (let query = (if query0 = PNone then PDict [] else query0)
      in if \<not> isinstance_dict query then
           (Inl (ValueError ''read() expects query to be a dict or None''), w)
         else
           case enh_read_try m s query projection limit sort_arg w of
             (Inr refs, w1) \<Rightarrow> (Inr refs, w1)
           | (Inl e, w1) \<Rightarrow>
               if isinstance_PyMongoError e then
                 (Inl e, logger ERROR ''Error reading documents: %s'' [AErr e] w1)
               else (Inl e, w1))"

text \<open>\<^verbatim>\<open>int(c or 0)\<close>: \<^verbatim>\<open>None\<close> and \<^verbatim>\<open>0\<close> are false, so the \<^verbatim>\<open>or\<close> gives 0 for them.\<close>

definition int_or_zero :: "int option \<Rightarrow> int" where
  "int_or_zero c = (case c of None \<Rightarrow> 0 | Some n \<Rightarrow> if n \<noteq> 0 then n else 0)"

definition enh_update_try ::
  "mongo \<Rightarrow> enh_shelter \<Rightarrow> pyval \<Rightarrow> pyval \<Rightarrow> bool \<Rightarrow> bool \<Rightarrow> world \<Rightarrow> (error + int) \<times> world" where
  "enh_update_try m s query update_doc many upsert w =
     (case enh_collection s of
        Inl e \<Rightarrow> (Inl e, w)
      | Inr c \<Rightarrow>
          let (r, w1) = (if many
                         then store_call m (UpdateMany c query update_doc upsert) w
                         else store_call m (UpdateOne c query update_doc upsert) w)
          in case r of
               Some e \<Rightarrow> (Inl e, w1)
             | None \<Rightarrow>
                 let modified = int_or_zero (modified_count m (calls w1))
                 in (Inr modified, logger INFO ''Updated %d document(s)'' [AInt modified] w1))"

definition enh_update ::
  "mongo \<Rightarrow> enh_shelter \<Rightarrow> pyval \<Rightarrow> pyval \<Rightarrow> bool \<Rightarrow> bool \<Rightarrow> world \<Rightarrow> (error + int) \<times> world" where
  "enh_update m s query update_doc many upsert w =
     (if \<not> isinstance_dict query \<or> \<not> truthy query then
        (Inl (ValueError ''update() expects a non-empty query dict''), w)
      else if \<not> isinstance_dict update_doc \<or> \<not> truthy update_doc then
        (Inl (ValueError ''update() expects a non-empty update_doc dict''), w)
      else
        case enh_update_try m s query update_doc many upsert w of
          (Inr n, w1) \<Rightarrow> (Inr n, w1)
        | (Inl e, w1) \<Rightarrow>
            if isinstance_PyMongoError e then
              (Inl e, logger ERROR ''Error updating document(s): %s'' [AErr e] w1)
            else (Inl e, w1))"

definition enh_delete_try ::
  "mongo \<Rightarrow> enh_shelter \<Rightarrow> pyval \<Rightarrow> bool \<Rightarrow> world \<Rightarrow> (error + int) \<times> world" where
  "enh_delete_try m s query many w =
     (case enh_collection s of
        Inl e \<Rightarrow> (Inl e, w)
      | Inr c \<Rightarrow>
          let (r, w1) = (if many
                         then store_call m (DeleteMany c query) w
                         else store_call m (DeleteOne c query) w)
          in case r of
               Some e \<Rightarrow> (Inl e, w1)
             | None \<Rightarrow>
                 let deleted = int_or_zero (deleted_count m (calls w1))
                 in (Inr deleted, logger INFO ''Deleted %d document(s)'' [AInt deleted] w1))"

definition enh_delete ::
  "mongo \<Rightarrow> enh_shelter \<Rightarrow> pyval \<Rightarrow> bool \<Rightarrow> world \<Rightarrow> (error + int) \<times> world" where
  "enh_delete m s query many w =
     (if \<not> isinstance_dict query \<or> \<not> truthy query then
        (Inl (ValueError ''delete() expects a non-empty query dict''), w)
      else
        case enh_delete_try m s query many w of
          (Inr n, w1) \<Rightarrow> (Inr n, w1)
        | (Inl e, w1) \<Rightarrow>
            if isinstance_PyMongoError e then
              (Inl e, logger ERROR ''Error deleting document(s): %s'' [AErr e] w1)
            else (Inl e, w1))"

text \<open>
  \<open>close\<close>: with a client, its \<^verbatim>\<open>close\<close> is called and the handle is set to \<^verbatim>\<open>None\<close>;
  should the client's \<^verbatim>\<open>close\<close> raise, the exception leaves the method before the
  handle is reset. Without a client nothing is done.
\<close>

definition enh_close :: "mongo \<Rightarrow> enh_shelter \<Rightarrow> world \<Rightarrow> (error + unit) \<times> enh_shelter \<times> world" where
  "enh_close m s w =
     (case client s of
        None \<Rightarrow> (Inr (), s, w)
      | Some c \<Rightarrow>
          let w0 = logger INFO ''Closing MongoDB client connection'' [] w;
              (r, w1) = store_call m ClientClose w0
          in case r of
               Some e \<Rightarrow> (Inl e, s, w1)
             | None \<Rightarrow> (Inr (), s\<lparr>client := None\<rparr>, w1))"

section \<open>Concrete stores and instances\<close>

text \<open>
  Stores, a world and two instances on which the theorems below are evaluated: a store
  that answers every call, one that is down, and one whose results carry no counts.
\<close>

definition empty_world :: world where
  "empty_world = \<lparr>calls = [], stdout = [], logged = [], heap = []\<rparr>"

definition ok_store :: mongo where
  "ok_store =
     \<lparr>raises = (\<lambda>h. None), acknowledged = (\<lambda>h. True),
      inserted_id = (\<lambda>h. PObjectId ''65a1''),
      modified_count = (\<lambda>h. Some 1), deleted_count = (\<lambda>h. Some 1),
      documents = (\<lambda>h. [[(''_id'', PObjectId ''65a1''), (''name'', PStr ''Rex'')],
                          [(''name'', PStr ''Tom'')]])\<rparr>"

definition down_store :: mongo where
  "down_store = ok_store\<lparr>raises := (\<lambda>h. Some (PyMongoError ''connection refused''))\<rparr>"

definition null_count_store :: mongo where
  "null_count_store = ok_store\<lparr>modified_count := (\<lambda>h. None), deleted_count := (\<lambda>h. None)\<rparr>"

definition local_args :: client_args where
  "local_args = \<lparr>host = ''localhost'', port = 27017, username = ''aacuser'',
      password = ''SNHU1234'', authSource = ''admin'', authMechanism = None,
      directConnection = None, serverSelectionTimeoutMS = 5000\<rparr>"

definition orig_aac :: orig_shelter where
  "orig_aac = \<lparr>orig_client = local_args, orig_database = ''aac'',
               orig_collection = (''aac'', ''animals'')\<rparr>"

definition enh_aac :: enh_shelter where
  "enh_aac = \<lparr>client = Some local_args, db_name = ''aac'', col_name = ''animals''\<rparr>"

definition rex :: pyval where
  "rex = PDict [(''name'', PStr ''Rex'')]"

definition set_age :: pyval where
  "set_age = PDict [(''$set'', PDict [(''age'', PInt 3)])]"

definition closed_aac :: enh_shelter where
  "closed_aac = enh_aac\<lparr>client := None\<rparr>"

definition closed_world :: world where
  "closed_world =
     \<lparr>calls = [ClientClose], stdout = [],
      logged = [(INFO, ''Closing MongoDB client connection'', [])], heap = []\<rparr>"

definition no_env :: "string \<Rightarrow> string option" where
  "no_env = (\<lambda>v. None)"

definition deploy_env :: "string \<Rightarrow> string option" where
  "deploy_env = (\<lambda>v. if v = ''AAC_DB_USER'' then Some ''svc''
                      else if v = ''AAC_DB_PASS'' then Some ''s3cret'' else None)"

definition half_env :: "string \<Rightarrow> string option" where
  "half_env = (\<lambda>v. if v = ''AAC_DB_USER'' then Some ''svc''
                    else if v = ''AAC_DB_PASS'' then Some [] else None)"

definition lost_cursor_store :: mongo where
  "lost_cursor_store =
     ok_store\<lparr>raises := (\<lambda>h. if h \<noteq> [] \<and> last h = CursorList
                              then Some (PyMongoError ''cursor lost'') else None)\<rparr>"

definition two_docs :: world where
  "two_docs =
     \<lparr>calls = [], stdout = [], logged = [],
      heap = [[(''_id'', PObjectId ''65a1''), (''name'', PStr ''Rex'')],
              [(''name'', PStr ''Tom'')]]\<rparr>"

definition read_all_world :: world where
  "read_all_world =
     \<lparr>calls = [Find (''aac'', ''animals'') (PDict []) PNone,
               CursorSort [(''name'', 1)], CursorLimit (PInt 5), CursorList],
      stdout = [],
      logged = [(INFO, ''Read %d document(s) from collection'', [AInt 2])],
      heap = [[(''_id'', PObjectId ''65a1''), (''name'', PStr ''Rex'')],
              [(''name'', PStr ''Tom'')],
              [(''name'', PStr ''Rex'')],
              [(''name'', PStr ''Tom'')]]\<rparr>"

definition limit_fail_store :: mongo where
  "limit_fail_store =
     ok_store\<lparr>raises := (\<lambda>h. if h \<noteq> [] \<and> last h = CursorLimit (PInt 5)
                              then Some (PyMongoError ''bad limit'') else None)\<rparr>"

definition no_delete_store :: mongo where
  "no_delete_store =
     ok_store\<lparr>raises := (\<lambda>h. if h \<noteq> [] \<and> (\<exists>c q. last h = DeleteOne c q)
                              then Some (PyMongoError ''not authorized'') else None),
               modified_count := (\<lambda>h. Some 2)\<rparr>"

definition close_fail_store :: mongo where
  "close_fail_store =
     ok_store\<lparr>raises := (\<lambda>h. if h \<noteq> [] \<and> last h = ClientClose
                              then Some (PyMongoError ''close failed'') else None)\<rparr>"

lemmas fixtures = empty_world_def ok_store_def down_store_def null_count_store_def
  local_args_def orig_aac_def enh_aac_def rex_def set_age_def

section \<open>What printing, logging and store calls leave unchanged\<close>

lemma calls_print [simp]: "calls (print l w) = calls w"
  by (simp add: print_def)

lemma calls_logger [simp]: "calls (logger l msg args w) = calls w"
  by (simp add: logger_def)

lemma heap_store_call [simp]: "heap (snd (store_call m c w)) = heap w"
  by (simp add: store_call_def Let_def)

lemma heap_logger [simp]: "heap (logger lv msg args w) = heap w"
  by (simp add: logger_def)

lemma calls_new_dicts [simp]: "calls (snd (new_dicts ds w)) = calls w"
  by (simp add: new_dicts_def)

lemma store_call_heapD: "store_call m c w = (r, w') \<Longrightarrow> heap w' = heap w"
  using heap_store_call [of m c w] by simp

section \<open>Validation of the arguments of update\<close>

lemma enh_update_invalid:
  "\<not> isinstance_dict q \<or> \<not> truthy q \<or> \<not> isinstance_dict u \<or> \<not> truthy u \<Longrightarrow>
   \<exists>msg. enh_update m s q u many upsert w = (Inl (ValueError msg), w)"
  by (auto simp: enh_update_def)

lemma orig_update_invalid:
  "\<not> isinstance_dict q \<or> \<not> isinstance_dict u \<Longrightarrow>
   orig_update m s q u many upsert w = (Inl (ValueError '''query' and 'update_doc' must be dicts.''), w)"
  by (auto simp: orig_update_def)

lemma orig_update_calls:
  "isinstance_dict q \<Longrightarrow> isinstance_dict u \<Longrightarrow>
   calls (snd (orig_update m s q u many upsert w)) =
     calls w @ [if many then UpdateMany (orig_collection s) q u upsert
                else UpdateOne (orig_collection s) q u upsert]"
  by (auto simp: orig_update_def orig_update_try_def store_call_def Let_def py_int_def
           split: option.splits sum.splits prod.splits)

text \<open>
  C1, as the code has it. The enhanced \<open>update\<close> raises a \<^verbatim>\<open>ValueError\<close> when the
  query or the update specification is not a dict or is an empty dict, and leaves the
  world as it was: no call reaches the store client. The baseline \<open>update\<close> raises a
  \<^verbatim>\<open>ValueError\<close>, with the world unchanged, only when one of the two is not a dict;
  given two dicts, empty or not, it calls the store's update.
\<close>

theorem update_rejects_invalid_mappings:
  "(\<not> isinstance_dict q \<or> \<not> truthy q \<or> \<not> isinstance_dict u \<or> \<not> truthy u \<longrightarrow>
      (\<exists>msg. enh_update m s q u many upsert w = (Inl (ValueError msg), w)))
   \<and> (\<not> isinstance_dict q \<or> \<not> isinstance_dict u \<longrightarrow>
      (\<exists>msg. orig_update m' s' q u many upsert w = (Inl (ValueError msg), w)))
   \<and> (isinstance_dict q \<and> isinstance_dict u \<longrightarrow>
      calls (snd (orig_update m' s' q u many upsert w)) =
        calls w @ [if many then UpdateMany (orig_collection s') q u upsert
                   else UpdateOne (orig_collection s') q u upsert])"
proof (intro conjI impI)
  assume "\<not> isinstance_dict q \<or> \<not> truthy q \<or> \<not> isinstance_dict u \<or> \<not> truthy u"
  then show "\<exists>msg. enh_update m s q u many upsert w = (Inl (ValueError msg), w)"
    by (rule enh_update_invalid)
next
  assume "\<not> isinstance_dict q \<or> \<not> isinstance_dict u"
  then show "\<exists>msg. orig_update m' s' q u many upsert w = (Inl (ValueError msg), w)"
    by (simp add: orig_update_invalid)
next
  assume "isinstance_dict q \<and> isinstance_dict u"
  then show "calls (snd (orig_update m' s' q u many upsert w)) =
        calls w @ [if many then UpdateMany (orig_collection s') q u upsert
                   else UpdateOne (orig_collection s') q u upsert]"
    by (simp add: orig_update_calls)
qed

text \<open>
  The theorem at the scenario of the specification,
  \<^verbatim>\<open>update({"name": "Rex"}, {}, many=False)\<close>, and at a query that is a string.
\<close>

theorem update_rejects_invalid_mappings_witness:
  "(\<exists>msg. enh_update ok_store enh_aac rex (PDict []) False False empty_world
            = (Inl (ValueError msg), empty_world))
   \<and> (\<exists>msg. orig_update ok_store orig_aac (PStr ''Rex'') set_age False False empty_world
            = (Inl (ValueError msg), empty_world))
   \<and> calls (snd (orig_update ok_store orig_aac rex (PDict []) False False empty_world))
       = [UpdateOne (''aac'', ''animals'') rex (PDict []) False]"
  using update_rejects_invalid_mappings [of rex "PDict []" ok_store enh_aac False False empty_world ok_store orig_aac]
        update_rejects_invalid_mappings [of "PStr ''Rex''" set_age ok_store enh_aac False False empty_world ok_store orig_aac]
  by (simp add: rex_def empty_world_def orig_aac_def)

text \<open>
  The baseline \<open>update\<close> with an empty query and a well-formed update specification
  raises nothing: it calls \<^verbatim>\<open>update_one\<close> and returns the store's count.
\<close>

theorem baseline_update_empty_query_counterexample:
  "fst (orig_update ok_store orig_aac (PDict []) set_age False False empty_world) = Inr 1
   \<and> calls (snd (orig_update ok_store orig_aac (PDict []) set_age False False empty_world))
       = [UpdateOne (''aac'', ''animals'') (PDict []) set_age False]"
  by (simp add: orig_update_def orig_update_try_def store_call_def py_int_def fixtures)

section \<open>Validation of the query of delete\<close>

lemma orig_delete_invalid:
  "\<not> isinstance_dict q \<Longrightarrow>
   orig_delete m s q many w = (Inl (ValueError '''query' must be a dict.''), w)"
  by (simp add: orig_delete_def)

lemma orig_delete_calls:
  "isinstance_dict q \<Longrightarrow>
   calls (snd (orig_delete m s q many w)) =
     calls w @ [if many then DeleteMany (orig_collection s) q else DeleteOne (orig_collection s) q]"
  by (auto simp: orig_delete_def orig_delete_try_def store_call_def Let_def py_int_def
           split: option.splits sum.splits prod.splits)

lemma enh_delete_invalid:
  "\<not> isinstance_dict q \<or> \<not> truthy q \<Longrightarrow>
   enh_delete m s q many w = (Inl (ValueError ''delete() expects a non-empty query dict''), w)"
  by (auto simp: enh_delete_def)

text \<open>
  C6, as the code has it. The baseline \<open>delete\<close> raises a \<^verbatim>\<open>ValueError\<close> only for a
  query that is not a dict; any dict, the empty one too, is passed to the store's delete.
  The enhanced \<open>delete\<close> raises a \<^verbatim>\<open>ValueError\<close> for a query that is not a dict or is
  an empty dict, and no call reaches the store client.
\<close>

theorem delete_query_validation:
  "(\<not> isinstance_dict q \<longrightarrow>
      orig_delete m s q many w = (Inl (ValueError '''query' must be a dict.''), w))
   \<and> (isinstance_dict q \<longrightarrow>
      calls (snd (orig_delete m s q many w)) =
        calls w @ [if many then DeleteMany (orig_collection s) q
                   else DeleteOne (orig_collection s) q])
   \<and> (\<not> isinstance_dict q \<or> \<not> truthy q \<longrightarrow>
      enh_delete m' s' q many w =
        (Inl (ValueError ''delete() expects a non-empty query dict''), w))"
proof (intro conjI impI)
  assume "\<not> isinstance_dict q"
  then show "orig_delete m s q many w = (Inl (ValueError '''query' must be a dict.''), w)"
    by (rule orig_delete_invalid)
next
  assume "isinstance_dict q"
  then show "calls (snd (orig_delete m s q many w)) =
        calls w @ [if many then DeleteMany (orig_collection s) q
                   else DeleteOne (orig_collection s) q]"
    by (rule orig_delete_calls)
next
  assume "\<not> isinstance_dict q \<or> \<not> truthy q"
  then show "enh_delete m' s' q many w =
        (Inl (ValueError ''delete() expects a non-empty query dict''), w)"
    by (rule enh_delete_invalid)
qed

text \<open>The theorem at the empty query, with \<^verbatim>\<open>many=True\<close>, and at a query that is a list.\<close>

theorem delete_query_validation_witness:
  "calls (snd (orig_delete ok_store orig_aac (PDict []) True empty_world))
     = [DeleteMany (''aac'', ''animals'') (PDict [])]
   \<and> orig_delete ok_store orig_aac (PList []) True empty_world
     = (Inl (ValueError '''query' must be a dict.''), empty_world)
   \<and> enh_delete ok_store enh_aac (PList []) True empty_world
     = (Inl (ValueError ''delete() expects a non-empty query dict''), empty_world)"
  using delete_query_validation [of "PDict []" ok_store orig_aac True empty_world ok_store enh_aac]
        delete_query_validation [of "PList []" ok_store orig_aac True empty_world ok_store enh_aac]
  by (simp add: empty_world_def orig_aac_def)

text \<open>The enhanced \<open>delete\<close> rejects the empty query: nothing is deleted, nothing is called.\<close>

theorem enhanced_delete_empty_query_counterexample:
  "enh_delete ok_store enh_aac (PDict []) True empty_world
     = (Inl (ValueError ''delete() expects a non-empty query dict''), empty_world)"
  by (simp add: enh_delete_def)

section \<open>Closing twice\<close>

lemma orig_close_result: "fst (orig_close m s w) = Inr ()"
  by (simp add: orig_close_def store_call_def Let_def split: option.splits)

lemma orig_close_calls: "calls (snd (orig_close m s w)) = calls w @ [ClientClose]"
  by (simp add: orig_close_def store_call_def Let_def split: option.splits)

lemma enh_close_open:
  "client s = Some c \<Longrightarrow> enh_close m s w = (Inr (), s1, w1) \<Longrightarrow>
   client s1 = None \<and> calls w1 = calls w @ [ClientClose]"
  by (auto simp: enh_close_def store_call_def Let_def split: option.splits)

lemma enh_close_closed: "client s = None \<Longrightarrow> enh_close m s w = (Inr (), s, w)"
  by (simp add: enh_close_def)

lemma enh_close_returns_closed:
  "enh_close m s w = (Inr (), s1, w1) \<Longrightarrow> client s1 = None"
  by (auto simp: enh_close_def store_call_def Let_def split: option.splits)

text \<open>
  C7, as the code has it. Enhanced variant: a \<open>close\<close> on an open instance calls the
  client's \<^verbatim>\<open>close\<close> once and, when that returns, leaves the handle unset; a
  \<open>close\<close> that follows a \<open>close\<close> that returned raises nothing, makes no call on the
  client and changes nothing, whatever the store would answer. Baseline variant: \<open>close\<close>
  never raises, and every call of it calls the client's \<^verbatim>\<open>close\<close> again.
\<close>

theorem close_twice:
  "(enh_close m s w = (Inr (), s1, w1) \<longrightarrow>
      enh_close m' s1 w1 = (Inr (), s1, w1)
      \<and> (client s \<noteq> None \<longrightarrow> calls w1 = calls w @ [ClientClose]))
   \<and> fst (orig_close m so w) = Inr ()
   \<and> fst (orig_close m' so (snd (orig_close m so w))) = Inr ()
   \<and> calls (snd (orig_close m' so (snd (orig_close m so w))))
       = calls w @ [ClientClose, ClientClose]"
proof (intro conjI impI)
  assume c: "enh_close m s w = (Inr (), s1, w1)"
  then have "client s1 = None" by (rule enh_close_returns_closed)
  then show "enh_close m' s1 w1 = (Inr (), s1, w1)" by (rule enh_close_closed)
next
  assume "enh_close m s w = (Inr (), s1, w1)" and "client s \<noteq> None"
  then show "calls w1 = calls w @ [ClientClose]"
    using enh_close_open by blast
next
  show "fst (orig_close m so w) = Inr ()" by (rule orig_close_result)
next
  show "fst (orig_close m' so (snd (orig_close m so w))) = Inr ()" by (rule orig_close_result)
next
  show "calls (snd (orig_close m' so (snd (orig_close m so w)))) = calls w @ [ClientClose, ClientClose]"
    by (simp add: orig_close_calls)
qed

lemma enh_close_aac: "enh_close ok_store enh_aac empty_world = (Inr (), closed_aac, closed_world)"
  by (simp add: enh_close_def store_call_def logger_def closed_aac_def closed_world_def fixtures)

text \<open>Two closes of an open instance, the second against a store that is down.\<close>

theorem close_twice_witness:
  "enh_close ok_store enh_aac empty_world = (Inr (), closed_aac, closed_world)
   \<and> enh_close down_store closed_aac closed_world = (Inr (), closed_aac, closed_world)
   \<and> calls closed_world = [ClientClose]
   \<and> calls (snd (orig_close down_store orig_aac (snd (orig_close ok_store orig_aac empty_world))))
       = [ClientClose, ClientClose]"
  using close_twice [of ok_store enh_aac empty_world closed_aac closed_world down_store orig_aac]
        enh_close_aac
  by (simp add: empty_world_def enh_aac_def local_args_def closed_world_def)

text \<open>The baseline \<open>close\<close>, called twice, calls the client's \<^verbatim>\<open>close\<close> twice.\<close>

theorem baseline_close_twice_counterexample:
  "calls (snd (orig_close ok_store orig_aac (snd (orig_close ok_store orig_aac empty_world))))
     = [ClientClose, ClientClose]"
  by (simp add: orig_close_def store_call_def fixtures)

section \<open>The counts that update and delete return\<close>

lemma int_or_zero_eq: "int_or_zero c = (case c of None \<Rightarrow> 0 | Some n \<Rightarrow> n)"
  by (simp add: int_or_zero_def split: option.splits)

lemma enh_update_count:
  assumes "client s \<noteq> None"
    and "isinstance_dict q" "truthy q" "isinstance_dict u" "truthy u"
    and "h = calls w @ [if many then UpdateMany (db_name s, col_name s) q u upsert
                        else UpdateOne (db_name s, col_name s) q u upsert]"
    and "raises m h = None"
  shows "fst (enh_update m s q u many upsert w)
           = Inr (case modified_count m h of None \<Rightarrow> 0 | Some n \<Rightarrow> n)"
  using assms
  by (cases many) (auto simp: enh_update_def enh_update_try_def enh_collection_def store_call_def
                 Let_def int_or_zero_eq split: option.splits)

lemma enh_delete_count:
  assumes "client s \<noteq> None"
    and "isinstance_dict q" "truthy q"
    and "h = calls w @ [if many then DeleteMany (db_name s, col_name s) q
                        else DeleteOne (db_name s, col_name s) q]"
    and "raises m h = None"
  shows "fst (enh_delete m s q many w)
           = Inr (case deleted_count m h of None \<Rightarrow> 0 | Some n \<Rightarrow> n)"
  using assms
  by (cases many) (auto simp: enh_delete_def enh_delete_try_def enh_collection_def store_call_def
                 Let_def int_or_zero_eq split: option.splits)

lemma orig_update_count:
  assumes "isinstance_dict q" "isinstance_dict u"
    and "h = calls w @ [if many then UpdateMany (orig_collection s) q u upsert
                        else UpdateOne (orig_collection s) q u upsert]"
    and "raises m h = None"
  shows "fst (orig_update m s q u many upsert w) = py_int (modified_count m h)"
  using assms
  by (cases many) (auto simp: orig_update_def orig_update_try_def store_call_def Let_def py_int_def
           split: option.splits)

lemma orig_delete_count:
  assumes "isinstance_dict q"
    and "h = calls w @ [if many then DeleteMany (orig_collection s) q
                        else DeleteOne (orig_collection s) q]"
    and "raises m h = None"
  shows "fst (orig_delete m s q many w) = py_int (deleted_count m h)"
  using assms
  by (cases many) (auto simp: orig_delete_def orig_delete_try_def store_call_def Let_def py_int_def
           split: option.splits)

text \<open>
  C9, as the code has it. Each of the four operations, on arguments that pass its own
  validation and when its own call on the store does not raise: the enhanced \<open>update\<close>
  and \<open>delete\<close> return the count the store reports, and 0 when the store reports none
  (\<^verbatim>\<open>None\<close>); the baseline \<open>update\<close> and \<open>delete\<close> return the count the store
  reports when there is one, and when the store reports none, \<^verbatim>\<open>int(None)\<close> raises
  a \<^verbatim>\<open>TypeError\<close>, which the handler for store failures does not catch. Below, \<open>eu\<close>,
  \<open>ed\<close>, \<open>ou\<close> and \<open>od\<close> name the history of calls once the operation has made its
  call.
\<close>

theorem store_counts_returned:
  assumes "eu = calls w @ [if many then UpdateMany (db_name s, col_name s) q u upsert
                           else UpdateOne (db_name s, col_name s) q u upsert]"
    and "ed = calls w @ [if many then DeleteMany (db_name s, col_name s) q
                         else DeleteOne (db_name s, col_name s) q]"
    and "ou = calls w @ [if many then UpdateMany (orig_collection so) q u upsert
                         else UpdateOne (orig_collection so) q u upsert]"
    and "od = calls w @ [if many then DeleteMany (orig_collection so) q
                         else DeleteOne (orig_collection so) q]"
  shows "(client s \<noteq> None \<and> isinstance_dict q \<and> truthy q \<and> isinstance_dict u \<and> truthy u
            \<and> raises m eu = None \<longrightarrow>
          fst (enh_update m s q u many upsert w)
            = Inr (case modified_count m eu of None \<Rightarrow> 0 | Some n \<Rightarrow> n))
       \<and> (client s \<noteq> None \<and> isinstance_dict q \<and> truthy q \<and> raises m ed = None \<longrightarrow>
          fst (enh_delete m s q many w)
            = Inr (case deleted_count m ed of None \<Rightarrow> 0 | Some n \<Rightarrow> n))
       \<and> (isinstance_dict q \<and> isinstance_dict u \<and> raises m ou = None \<longrightarrow>
          fst (orig_update m so q u many upsert w)
            = (case modified_count m ou of
                 None \<Rightarrow> Inl (TypeError int_none_message)
               | Some n \<Rightarrow> Inr n))
       \<and> (isinstance_dict q \<and> raises m od = None \<longrightarrow>
          fst (orig_delete m so q many w)
            = (case deleted_count m od of
                 None \<Rightarrow> Inl (TypeError int_none_message)
               | Some n \<Rightarrow> Inr n))"
proof (intro conjI impI)
  {
    assume "client s \<noteq> None \<and> isinstance_dict q \<and> truthy q \<and> isinstance_dict u \<and> truthy u
            \<and> raises m eu = None"
    then show "fst (enh_update m s q u many upsert w)
            = Inr (case modified_count m eu of None \<Rightarrow> 0 | Some n \<Rightarrow> n)"
      using assms(1) by (intro enh_update_count) simp_all
  }
  {
    assume "client s \<noteq> None \<and> isinstance_dict q \<and> truthy q \<and> raises m ed = None"
    then show "fst (enh_delete m s q many w)
            = Inr (case deleted_count m ed of None \<Rightarrow> 0 | Some n \<Rightarrow> n)"
      using assms(2) by (intro enh_delete_count) simp_all
  }
  {
    assume "isinstance_dict q \<and> isinstance_dict u \<and> raises m ou = None"
    then have "fst (orig_update m so q u many upsert w) = py_int (modified_count m ou)"
      using assms(3) by (intro orig_update_count) simp_all
    then show "fst (orig_update m so q u many upsert w)
            = (case modified_count m ou of
                 None \<Rightarrow> Inl (TypeError int_none_message)
               | Some n \<Rightarrow> Inr n)"
      by (simp add: py_int_def)
  }
  {
    assume "isinstance_dict q \<and> raises m od = None"
    then have "fst (orig_delete m so q many w) = py_int (deleted_count m od)"
      using assms(4) by (intro orig_delete_count) simp_all
    then show "fst (orig_delete m so q many w)
            = (case deleted_count m od of
                 None \<Rightarrow> Inl (TypeError int_none_message)
               | Some n \<Rightarrow> Inr n)"
      by (simp add: py_int_def)
  }
qed

text \<open>
  A store that reports no counts; a store that answers an update and refuses every
  delete; and the baseline \<open>delete\<close> with the empty query.
\<close>

theorem store_counts_returned_witness:
  "fst (enh_update null_count_store enh_aac rex set_age False False empty_world) = Inr 0
   \<and> fst (enh_delete null_count_store enh_aac rex False empty_world) = Inr 0
   \<and> fst (orig_update null_count_store orig_aac rex set_age False False empty_world)
       = Inl (TypeError int_none_message)
   \<and> fst (orig_delete null_count_store orig_aac rex False empty_world)
       = Inl (TypeError int_none_message)
   \<and> fst (enh_update no_delete_store enh_aac rex set_age False False empty_world) = Inr 2
   \<and> fst (orig_delete ok_store orig_aac (PDict []) False empty_world) = Inr 1"
proof -
  note n = store_counts_returned [OF refl refl refl refl,
             of enh_aac rex set_age null_count_store empty_world False False orig_aac]
  note d = store_counts_returned [OF refl refl refl refl,
             of enh_aac rex set_age no_delete_store empty_world False False orig_aac]
  note e = store_counts_returned [OF refl refl refl refl,
             of enh_aac "PDict []" set_age ok_store empty_world False False orig_aac]
  have 1: "fst (enh_update null_count_store enh_aac rex set_age False False empty_world) = Inr 0"
    using n [THEN conjunct1] by (simp add: fixtures)
  have 2: "fst (enh_delete null_count_store enh_aac rex False empty_world) = Inr 0"
    using n [THEN conjunct2, THEN conjunct1] by (simp add: fixtures)
  have 3: "fst (orig_update null_count_store orig_aac rex set_age False False empty_world)
             = Inl (TypeError int_none_message)"
    using n [THEN conjunct2, THEN conjunct2, THEN conjunct1] by (simp add: fixtures)
  have 4: "fst (orig_delete null_count_store orig_aac rex False empty_world)
             = Inl (TypeError int_none_message)"
    using n [THEN conjunct2, THEN conjunct2, THEN conjunct2] by (simp add: fixtures)
  have 5: "fst (enh_update no_delete_store enh_aac rex set_age False False empty_world) = Inr 2"
    using d [THEN conjunct1] by (simp add: no_delete_store_def fixtures)
  have 6: "fst (orig_delete ok_store orig_aac (PDict []) False empty_world) = Inr 1"
    using e [THEN conjunct2, THEN conjunct2, THEN conjunct2] by (simp add: fixtures)
  from 1 2 3 4 5 6 show ?thesis by (intro conjI)
qed

text \<open>
  The baseline \<open>update\<close>, when the store reports no modified count, raises a
  \<^verbatim>\<open>TypeError\<close>; it does not return 0.
\<close>

theorem baseline_update_null_count_counterexample:
  "fst (orig_update null_count_store orig_aac rex set_age False False empty_world)
     = Inl (TypeError int_none_message)"
  by (simp add: orig_update_def orig_update_try_def store_call_def py_int_def fixtures)


section \<open>Construction\<close>

lemma orig_init_empty:
  "user = [] \<or> passwd = [] \<Longrightarrow>
   orig_init m user passwd hst prt db col asrc amech tmo w
     = (Inl (ValueError ''Both 'user' and 'password' are required.''), w)"
  by (auto simp: orig_init_def)

lemma enh_init_empty:
  assumes "((environ ''AAC_DB_USER'' = None \<or> environ ''AAC_DB_USER'' = Some []) \<and> user = [])
         \<or> ((environ ''AAC_DB_PASS'' = None \<or> environ ''AAC_DB_PASS'' = Some []) \<and> passwd = [])"
  shows "enh_init m environ user passwd hst prt db col asrc w
     = (Inl (ValueError ''MongoDB user and password must be provided''), w)"
  using assms by (auto simp: enh_init_def Let_def split: option.splits)

text \<open>
  C4. In both variants, a user or a password that is empty once resolved (in the enhanced
  variant: the environment variable is unset or empty and the argument is empty) makes
  the constructor raise a \<^verbatim>\<open>ValueError\<close> with the world as it was: no client is built,
  no ping is sent, nothing is logged.
\<close>

theorem init_rejects_empty_credentials:
  "(user = [] \<or> passwd = [] \<longrightarrow>
      orig_init m user passwd hst prt db col asrc amech tmo w
        = (Inl (ValueError ''Both 'user' and 'password' are required.''), w))
   \<and> (((environ ''AAC_DB_USER'' = None \<or> environ ''AAC_DB_USER'' = Some []) \<and> user = [])
       \<or> ((environ ''AAC_DB_PASS'' = None \<or> environ ''AAC_DB_PASS'' = Some []) \<and> passwd = []) \<longrightarrow>
      enh_init m environ user passwd hst prt db col asrc w
        = (Inl (ValueError ''MongoDB user and password must be provided''), w))"
proof (intro conjI impI)
  assume "user = [] \<or> passwd = []"
  then show "orig_init m user passwd hst prt db col asrc amech tmo w
        = (Inl (ValueError ''Both 'user' and 'password' are required.''), w)"
    by (rule orig_init_empty)
next
  assume "((environ ''AAC_DB_USER'' = None \<or> environ ''AAC_DB_USER'' = Some []) \<and> user = [])
       \<or> ((environ ''AAC_DB_PASS'' = None \<or> environ ''AAC_DB_PASS'' = Some []) \<and> passwd = [])"
  then show "enh_init m environ user passwd hst prt db col asrc w
        = (Inl (ValueError ''MongoDB user and password must be provided''), w)"
    by (rule enh_init_empty)
qed

text \<open>The scenario of the specification: user \<^verbatim>\<open>"u"\<close>, password \<^verbatim>\<open>""\<close>.\<close>

theorem init_rejects_empty_credentials_witness:
  "orig_init ok_store ''u'' '''' ''localhost'' 27017 ''aac'' ''animals'' ''admin''
      ''SCRAM-SHA-256'' 5000 empty_world
     = (Inl (ValueError ''Both 'user' and 'password' are required.''), empty_world)
   \<and> enh_init ok_store no_env ''u'' '''' ''localhost'' 27017 ''aac'' ''animals'' ''admin''
      empty_world
     = (Inl (ValueError ''MongoDB user and password must be provided''), empty_world)
   \<and> enh_init ok_store half_env ''u'' '''' ''localhost'' 27017 ''aac'' ''animals'' ''admin''
      empty_world
     = (Inl (ValueError ''MongoDB user and password must be provided''), empty_world)"
  using init_rejects_empty_credentials [of "''u''" "''''" ok_store "''localhost''" 27017
          "''aac''" "''animals''" "''admin''" "''SCRAM-SHA-256''" 5000 empty_world no_env]
        init_rejects_empty_credentials [of "''u''" "''''" ok_store "''localhost''" 27017
          "''aac''" "''animals''" "''admin''" "''SCRAM-SHA-256''" 5000 empty_world half_env]
  by (simp add: no_env_def half_env_def)

lemma enh_init_try_calls:
  "\<exists>rest. calls (snd (enh_init_try m args db col w)) = calls w @ MongoClient args # rest"
  by (simp add: enh_init_try_def store_call_def logger_def Let_def split: option.splits)

lemma enh_init_try_client:
  "enh_init_try m args db col w = (Inr s, w') \<Longrightarrow> client s = Some args"
  by (auto simp: enh_init_try_def store_call_def Let_def split: option.splits)

lemma enh_init_resolved:
  assumes "u \<noteq> []" "p \<noteq> []"
    and "environ ''AAC_DB_USER'' = Some u
         \<or> ((environ ''AAC_DB_USER'' = None \<or> environ ''AAC_DB_USER'' = Some []) \<and> user = u)"
    and "environ ''AAC_DB_PASS'' = Some p
         \<or> ((environ ''AAC_DB_PASS'' = None \<or> environ ''AAC_DB_PASS'' = Some []) \<and> passwd = p)"
  shows "enh_init m environ user passwd hst prt db col asrc w =
     (case enh_init_try m
             \<lparr>host = hst, port = prt, username = u, password = p,
              authSource = asrc, authMechanism = None,
              directConnection = None, serverSelectionTimeoutMS = 5000\<rparr> db col w of
        (Inr s, w1) \<Rightarrow> (Inr s, w1)
      | (Inl e, w1) \<Rightarrow>
          if isinstance_PyMongoError e then
            (Inl e, logger ERROR ''Failed to connect to MongoDB: %s'' [AErr e] w1)
          else (Inl e, w1))"
proof -
  have ru: "(case environ ''AAC_DB_USER'' of Some v \<Rightarrow> if v \<noteq> [] then v else user | None \<Rightarrow> user) = u"
    using assms(1,3) by (auto split: option.splits)
  have rp: "(case environ ''AAC_DB_PASS'' of Some v \<Rightarrow> if v \<noteq> [] then v else passwd | None \<Rightarrow> passwd) = p"
    using assms(2,4) by (auto split: option.splits)
  show ?thesis
    unfolding enh_init_def Let_def ru rp using assms(1,2) by simp
qed

lemma enh_init_calls:
  assumes "u \<noteq> []" "p \<noteq> []"
    and "environ ''AAC_DB_USER'' = Some u
         \<or> ((environ ''AAC_DB_USER'' = None \<or> environ ''AAC_DB_USER'' = Some []) \<and> user = u)"
    and "environ ''AAC_DB_PASS'' = Some p
         \<or> ((environ ''AAC_DB_PASS'' = None \<or> environ ''AAC_DB_PASS'' = Some []) \<and> passwd = p)"
  shows "\<exists>rest. calls (snd (enh_init m environ user passwd hst prt db col asrc w))
          = calls w @ MongoClient \<lparr>host = hst, port = prt, username = u, password = p,
                                   authSource = asrc, authMechanism = None,
                                   directConnection = None, serverSelectionTimeoutMS = 5000\<rparr> # rest"
proof -
  let ?args = "\<lparr>host = hst, port = prt, username = u, password = p,
                authSource = asrc, authMechanism = None,
                directConnection = None, serverSelectionTimeoutMS = 5000\<rparr>"
  obtain r w1 where t: "enh_init_try m ?args db col w = (r, w1)"
    by (cases "enh_init_try m ?args db col w")
  from enh_init_try_calls [of m ?args db col w] t
  obtain rest where c: "calls w1 = calls w @ MongoClient ?args # rest" by auto
  have "calls (snd (enh_init m environ user passwd hst prt db col asrc w)) = calls w1"
    unfolding enh_init_resolved [OF assms] t by (cases r) simp_all
  with c show ?thesis by simp
qed

lemma enh_init_client:
  assumes "u \<noteq> []" "p \<noteq> []"
    and "environ ''AAC_DB_USER'' = Some u
         \<or> ((environ ''AAC_DB_USER'' = None \<or> environ ''AAC_DB_USER'' = Some []) \<and> user = u)"
    and "environ ''AAC_DB_PASS'' = Some p
         \<or> ((environ ''AAC_DB_PASS'' = None \<or> environ ''AAC_DB_PASS'' = Some []) \<and> passwd = p)"
    and "enh_init m environ user passwd hst prt db col asrc w = (Inr s, w')"
  shows "client s = Some \<lparr>host = hst, port = prt, username = u, password = p,
                           authSource = asrc, authMechanism = None,
                           directConnection = None, serverSelectionTimeoutMS = 5000\<rparr>"
proof -
  let ?args = "\<lparr>host = hst, port = prt, username = u, password = p,
                authSource = asrc, authMechanism = None,
                directConnection = None, serverSelectionTimeoutMS = 5000\<rparr>"
  obtain r w1 where t: "enh_init_try m ?args db col w = (r, w1)"
    by (cases "enh_init_try m ?args db col w")
  from assms(5) have "r = Inr s"
    unfolding enh_init_resolved [OF assms(1-4)] t
    by (cases r) (auto split: if_splits)
  with t show ?thesis by (simp add: enh_init_try_client)
qed

text \<open>
  C5. In the enhanced constructor, the user name and the password handed to the store
  client are the values of \<^verbatim>\<open>AAC_DB_USER\<close> and \<^verbatim>\<open>AAC_DB_PASS\<close> when these are set
  and non-empty, whatever the arguments are, and the arguments when the variable is unset
  or empty: the first call made on the store builds the client with them, and the
  instance that a successful construction returns holds them.
\<close>

theorem enh_init_env_precedence:
  assumes "u \<noteq> []" "p \<noteq> []"
    and "environ ''AAC_DB_USER'' = Some u
         \<or> ((environ ''AAC_DB_USER'' = None \<or> environ ''AAC_DB_USER'' = Some []) \<and> user = u)"
    and "environ ''AAC_DB_PASS'' = Some p
         \<or> ((environ ''AAC_DB_PASS'' = None \<or> environ ''AAC_DB_PASS'' = Some []) \<and> passwd = p)"
  shows "(\<exists>rest. calls (snd (enh_init m environ user passwd hst prt db col asrc w))
          = calls w @ MongoClient \<lparr>host = hst, port = prt, username = u, password = p,
                                   authSource = asrc, authMechanism = None,
                                   directConnection = None, serverSelectionTimeoutMS = 5000\<rparr> # rest)
       \<and> (\<forall>s w'. enh_init m environ user passwd hst prt db col asrc w = (Inr s, w') \<longrightarrow>
            client s = Some \<lparr>host = hst, port = prt, username = u, password = p,
                             authSource = asrc, authMechanism = None,
                             directConnection = None, serverSelectionTimeoutMS = 5000\<rparr>)"
  using enh_init_calls [OF assms] enh_init_client [OF assms] by blast

text \<open>
  Both variables set: the arguments \<^verbatim>\<open>"aacuser"\<close> and \<^verbatim>\<open>"SNHU1234"\<close> are ignored.
  Password variable empty: the password argument is used, with the user of the variable.
\<close>

theorem enh_init_env_precedence_witness:
  "(\<exists>rest. calls (snd (enh_init ok_store deploy_env ''aacuser'' ''SNHU1234'' ''localhost'' 27017
                         ''aac'' ''animals'' ''admin'' empty_world))
      = MongoClient \<lparr>host = ''localhost'', port = 27017, username = ''svc'',
              password = ''s3cret'', authSource = ''admin'', authMechanism = None,
              directConnection = None, serverSelectionTimeoutMS = 5000\<rparr> # rest)
   \<and> (\<exists>rest. calls (snd (enh_init ok_store half_env ''aacuser'' ''SNHU1234'' ''localhost'' 27017
                         ''aac'' ''animals'' ''admin'' empty_world))
      = MongoClient \<lparr>host = ''localhost'', port = 27017, username = ''svc'',
              password = ''SNHU1234'', authSource = ''admin'', authMechanism = None,
              directConnection = None, serverSelectionTimeoutMS = 5000\<rparr> # rest)"
  using enh_init_env_precedence [of "''svc''" "''s3cret''" deploy_env "''aacuser''" "''SNHU1234''"
          ok_store "''localhost''" 27017 "''aac''" "''animals''" "''admin''" empty_world]
        enh_init_env_precedence [of "''svc''" "''SNHU1234''" half_env "''aacuser''" "''SNHU1234''"
          ok_store "''localhost''" 27017 "''aac''" "''animals''" "''admin''" empty_world]
  by (simp add: deploy_env_def half_env_def empty_world_def)

section \<open>Operations on a closed instance\<close>

lemma enh_collection_closed:
  "client s = None \<Longrightarrow> enh_collection s = Inl (RuntimeError ''MongoDB client is not initialized'')"
  by (simp add: enh_collection_def)

lemma closed_create:
  "client s = None \<Longrightarrow> isinstance_dict d \<Longrightarrow> truthy d \<Longrightarrow>
   enh_create m s d w = (Inl (RuntimeError ''MongoDB client is not initialized''), w)"
  by (simp add: enh_create_def enh_create_try_def enh_collection_closed)

lemma closed_read:
  "client s = None \<Longrightarrow> q = PNone \<or> isinstance_dict q \<Longrightarrow>
   enh_read m s q p l srt w = (Inl (RuntimeError ''MongoDB client is not initialized''), w)"
  by (cases "q = PNone") (simp_all add: enh_read_def enh_read_try_def enh_collection_closed)

lemma closed_update:
  "client s = None \<Longrightarrow> isinstance_dict q \<Longrightarrow> truthy q \<Longrightarrow> isinstance_dict u \<Longrightarrow> truthy u \<Longrightarrow>
   enh_update m s q u many upsert w = (Inl (RuntimeError ''MongoDB client is not initialized''), w)"
  by (simp add: enh_update_def enh_update_try_def enh_collection_closed)

lemma closed_delete:
  "client s = None \<Longrightarrow> isinstance_dict q \<Longrightarrow> truthy q \<Longrightarrow>
   enh_delete m s q many w = (Inl (RuntimeError ''MongoDB client is not initialized''), w)"
  by (simp add: enh_delete_def enh_delete_try_def enh_collection_closed)

text \<open>
  C8, as the code has it. Enhanced variant: on the instance that a \<open>close\<close> has
  returned from, \<open>create\<close>,
  \<open>read\<close>, \<open>update\<close> and \<open>delete\<close> with valid arguments raise the
  \<^verbatim>\<open>RuntimeError\<close> of the guard in \<open>collection\<close>, in any later world and whatever the
  store would answer; the world is left as it was, so no call reaches the store client
  and nothing is logged.
\<close>

theorem closed_instance_unusable:
  assumes "enh_close m0 s0 w0 = (Inr (), s, w1)"
  shows "(isinstance_dict d \<and> truthy d \<longrightarrow>
            enh_create m s d w = (Inl (RuntimeError ''MongoDB client is not initialized''), w))
       \<and> (q0 = PNone \<or> isinstance_dict q0 \<longrightarrow>
            enh_read m s q0 p l srt w = (Inl (RuntimeError ''MongoDB client is not initialized''), w))
       \<and> (isinstance_dict q \<and> truthy q \<and> isinstance_dict u \<and> truthy u \<longrightarrow>
            enh_update m s q u many upsert w
              = (Inl (RuntimeError ''MongoDB client is not initialized''), w))
       \<and> (isinstance_dict q \<and> truthy q \<longrightarrow>
            enh_delete m s q many w = (Inl (RuntimeError ''MongoDB client is not initialized''), w))"
proof (intro conjI impI)
  from assms have c: "client s = None" by (rule enh_close_returns_closed)
  {
    assume "isinstance_dict d \<and> truthy d"
    then show "enh_create m s d w = (Inl (RuntimeError ''MongoDB client is not initialized''), w)"
      using c by (simp add: closed_create)
  }
  {
    assume "q0 = PNone \<or> isinstance_dict q0"
    then show "enh_read m s q0 p l srt w
                 = (Inl (RuntimeError ''MongoDB client is not initialized''), w)"
      using c by (rule closed_read [rotated])
  }
  {
    assume "isinstance_dict q \<and> truthy q \<and> isinstance_dict u \<and> truthy u"
    then show "enh_update m s q u many upsert w
                 = (Inl (RuntimeError ''MongoDB client is not initialized''), w)"
      using c by (simp add: closed_update)
  }
  {
    assume "isinstance_dict q \<and> truthy q"
    then show "enh_delete m s q many w
                 = (Inl (RuntimeError ''MongoDB client is not initialized''), w)"
      using c by (simp add: closed_delete)
  }
qed

text \<open>After the close of an open instance, the four operations on a store that would answer.\<close>

theorem closed_instance_unusable_witness:
  "enh_close ok_store enh_aac empty_world = (Inr (), closed_aac, closed_world)
   \<and> enh_create ok_store closed_aac rex closed_world
       = (Inl (RuntimeError ''MongoDB client is not initialized''), closed_world)
   \<and> enh_read ok_store closed_aac PNone PNone (PInt 0) None closed_world
       = (Inl (RuntimeError ''MongoDB client is not initialized''), closed_world)
   \<and> enh_update ok_store closed_aac rex set_age False False closed_world
       = (Inl (RuntimeError ''MongoDB client is not initialized''), closed_world)
   \<and> enh_delete ok_store closed_aac rex False closed_world
       = (Inl (RuntimeError ''MongoDB client is not initialized''), closed_world)"
  using closed_instance_unusable [OF enh_close_aac, of rex ok_store closed_world PNone PNone
          "PInt 0" None rex set_age False False]
        enh_close_aac
  by (simp add: rex_def set_age_def)

text \<open>
  A \<open>close\<close> during which the client's \<^verbatim>\<open>close\<close> raises leaves the handle in place:
  the exception leaves the method before the handle is reset, and a \<open>create\<close> that
  follows reaches the store.
\<close>

theorem close_raises_counterexample:
  "fst (enh_close close_fail_store enh_aac empty_world) = Inl (PyMongoError ''close failed'')
   \<and> fst (enh_create close_fail_store
             (fst (snd (enh_close close_fail_store enh_aac empty_world))) rex
             (snd (snd (enh_close close_fail_store enh_aac empty_world))))
       = Inr True"
  by (simp add: enh_close_def enh_create_def enh_create_try_def enh_collection_def
        store_call_def logger_def close_fail_store_def fixtures)

section \<open>Store failures in the baseline variant\<close>

lemma orig_create_try_fails:
  "raises m (calls w @ [InsertOne (orig_collection s) d]) = Some e \<Longrightarrow>
   orig_create_try m s d w = (Inl e, w\<lparr>calls := calls w @ [InsertOne (orig_collection s) d]\<rparr>)"
  by (simp add: orig_create_try_def store_call_def)

lemma orig_update_try_fails:
  "c = (if many then UpdateMany (orig_collection s) q u upsert
        else UpdateOne (orig_collection s) q u upsert) \<Longrightarrow>
   raises m (calls w @ [c]) = Some e \<Longrightarrow>
   orig_update_try m s q u many upsert w = (Inl e, w\<lparr>calls := calls w @ [c]\<rparr>)"
  by (cases many) (simp_all add: orig_update_try_def store_call_def)

text \<open>
  The \<^verbatim>\<open>try\<close> of \<open>read\<close> ends with the exception of the first of its calls on the
  store that raises: \<open>h0\<close> is the history once \<^verbatim>\<open>find\<close> is called, \<open>h1\<close> once
  \<^verbatim>\<open>sort\<close> is (or \<open>h0\<close> again with no sort), \<open>h2\<close> once \<^verbatim>\<open>limit\<close> is (or \<open>h1\<close>
  again with no limit), \<open>h3\<close> once the cursor is read.
\<close>

lemma orig_read_try_fails:
  assumes "h0 = calls w @ [Find (orig_collection s) q p]"
    and "h1 = h0 @ (case srt of Some (x # xs) \<Rightarrow> [CursorSort (x # xs)] | _ \<Rightarrow> [])"
    and "h2 = h1 @ (if isinstance_int l \<and> gt_zero l then [CursorLimit l] else [])"
    and "h3 = h2 @ [CursorList]"
  shows "(raises m h0 = Some e \<longrightarrow>
            orig_read_try m s q p l srt w = (Inl e, w\<lparr>calls := h0\<rparr>))
       \<and> (raises m h0 = None \<and> raises m h1 = Some e \<longrightarrow>
            orig_read_try m s q p l srt w = (Inl e, w\<lparr>calls := h1\<rparr>))
       \<and> (raises m h0 = None \<and> raises m h1 = None \<and> raises m h2 = Some e \<longrightarrow>
            orig_read_try m s q p l srt w = (Inl e, w\<lparr>calls := h2\<rparr>))
       \<and> (raises m h0 = None \<and> raises m h1 = None \<and> raises m h2 = None
            \<and> raises m h3 = Some e \<longrightarrow>
            orig_read_try m s q p l srt w = (Inl e, w\<lparr>calls := h3\<rparr>))"
proof -
  consider (sorted) x xs where "srt = Some (x # xs)" | (plain) "srt = None \<or> srt = Some []"
    by (metis list.exhaust option.exhaust)
  then show ?thesis
  proof cases
    case sorted
    show ?thesis
      by (cases "isinstance_int l \<and> gt_zero l")
         (auto simp: assms sorted orig_read_try_def store_call_def Let_def)
  next
    case plain
    then show ?thesis
      by (cases "isinstance_int l \<and> gt_zero l")
         (auto simp: assms orig_read_try_def store_call_def Let_def)
  qed
qed

lemma orig_create_caught:
  "isinstance_dict d \<Longrightarrow> truthy d \<Longrightarrow> isinstance_PyMongoError e \<Longrightarrow>
   orig_create_try m s d w = (Inl e, w1) \<Longrightarrow>
   orig_create m s d w = (Inr False, print (''[ERROR] Create failed: '' @ str_of e) w1)"
  by (simp add: orig_create_def)

lemma orig_read_caught:
  "q0 = PNone \<or> isinstance_dict q0 \<Longrightarrow> isinstance_PyMongoError e \<Longrightarrow>
   orig_read_try m s (if q0 = PNone then PDict [] else q0) p l srt w = (Inl e, w1) \<Longrightarrow>
   orig_read m s q0 p l srt w = (Inr [], print (''[ERROR] Read failed: '' @ str_of e) w1)"
  by (cases "q0 = PNone") (simp_all add: orig_read_def)

lemma orig_update_caught:
  "isinstance_dict q \<Longrightarrow> isinstance_dict u \<Longrightarrow> isinstance_PyMongoError e \<Longrightarrow>
   orig_update_try m s q u many upsert w = (Inl e, w1) \<Longrightarrow>
   orig_update m s q u many upsert w = (Inr 0, print (''[ERROR] Update failed: '' @ str_of e) w1)"
  by (simp add: orig_update_def)

lemma orig_create_invalid:
  "\<not> isinstance_dict d \<or> \<not> truthy d \<Longrightarrow>
   orig_create m s d w = (Inl (ValueError '''data' must be a non-empty dict.''), w)"
  by (auto simp: orig_create_def)

lemma orig_read_invalid:
  "q0 \<noteq> PNone \<Longrightarrow> \<not> isinstance_dict q0 \<Longrightarrow>
   orig_read m s q0 p l srt w = (Inl (ValueError '''query' must be a dict.''), w)"
  by (simp add: orig_read_def)

lemma orig_read_soft:
  assumes "isinstance_PyMongoError e" and "q0 = PNone \<or> isinstance_dict q0"
    and "h0 = calls w @ [Find (orig_collection s) (if q0 = PNone then PDict [] else q0) p]"
    and "h1 = h0 @ (case srt of Some (x # xs) \<Rightarrow> [CursorSort (x # xs)] | _ \<Rightarrow> [])"
    and "h2 = h1 @ (if isinstance_int l \<and> gt_zero l then [CursorLimit l] else [])"
    and "h3 = h2 @ [CursorList]"
  shows "(raises m h0 = Some e \<longrightarrow>
            orig_read m s q0 p l srt w
              = (Inr [], print (''[ERROR] Read failed: '' @ str_of e) (w\<lparr>calls := h0\<rparr>)))
       \<and> (raises m h0 = None \<and> raises m h1 = Some e \<longrightarrow>
            orig_read m s q0 p l srt w
              = (Inr [], print (''[ERROR] Read failed: '' @ str_of e) (w\<lparr>calls := h1\<rparr>)))
       \<and> (raises m h0 = None \<and> raises m h1 = None \<and> raises m h2 = Some e \<longrightarrow>
            orig_read m s q0 p l srt w
              = (Inr [], print (''[ERROR] Read failed: '' @ str_of e) (w\<lparr>calls := h2\<rparr>)))
       \<and> (raises m h0 = None \<and> raises m h1 = None \<and> raises m h2 = None
            \<and> raises m h3 = Some e \<longrightarrow>
            orig_read m s q0 p l srt w
              = (Inr [], print (''[ERROR] Read failed: '' @ str_of e) (w\<lparr>calls := h3\<rparr>)))"
proof -
  note t = orig_read_try_fails [OF assms(3-6), of m e]
  note c = orig_read_caught [OF assms(2) assms(1)]
  show ?thesis
  proof (intro conjI impI)
    assume "raises m h0 = Some e"
    with t have "orig_read_try m s (if q0 = PNone then PDict [] else q0) p l srt w
                   = (Inl e, w\<lparr>calls := h0\<rparr>)" by simp
    then show "orig_read m s q0 p l srt w
              = (Inr [], print (''[ERROR] Read failed: '' @ str_of e) (w\<lparr>calls := h0\<rparr>))"
      by (rule c)
  next
    assume "raises m h0 = None \<and> raises m h1 = Some e"
    with t have "orig_read_try m s (if q0 = PNone then PDict [] else q0) p l srt w
                   = (Inl e, w\<lparr>calls := h1\<rparr>)" by simp
    then show "orig_read m s q0 p l srt w
              = (Inr [], print (''[ERROR] Read failed: '' @ str_of e) (w\<lparr>calls := h1\<rparr>))"
      by (rule c)
  next
    assume "raises m h0 = None \<and> raises m h1 = None \<and> raises m h2 = Some e"
    with t have "orig_read_try m s (if q0 = PNone then PDict [] else q0) p l srt w
                   = (Inl e, w\<lparr>calls := h2\<rparr>)" by simp
    then show "orig_read m s q0 p l srt w
              = (Inr [], print (''[ERROR] Read failed: '' @ str_of e) (w\<lparr>calls := h2\<rparr>))"
      by (rule c)
  next
    assume "raises m h0 = None \<and> raises m h1 = None \<and> raises m h2 = None
            \<and> raises m h3 = Some e"
    with t have "orig_read_try m s (if q0 = PNone then PDict [] else q0) p l srt w
                   = (Inl e, w\<lparr>calls := h3\<rparr>)" by simp
    then show "orig_read m s q0 p l srt w
              = (Inr [], print (''[ERROR] Read failed: '' @ str_of e) (w\<lparr>calls := h3\<rparr>))"
      by (rule c)
  qed
qed

text \<open>
  C3. Baseline variant. When a call that \<open>create\<close>, \<open>read\<close> or \<open>update\<close> makes on
  the store raises an exception of the store (a \<^verbatim>\<open>PyMongoError\<close> or a subclass), the
  operation does not raise: it prints one line, \<^verbatim>\<open>[ERROR] ... failed:\<close> with the
  message, and returns \<^verbatim>\<open>False\<close>, the empty list or 0, and makes no further call.
  \<open>create\<close> and \<open>update\<close> make one call. \<open>read\<close> makes up to four; \<open>h0\<close> is the
  history once \<^verbatim>\<open>find\<close> is called, \<open>h1\<close> once \<^verbatim>\<open>sort\<close> is (or \<open>h0\<close> again when
  there is no sort), \<open>h2\<close> once \<^verbatim>\<open>limit\<close> is (or \<open>h1\<close> again when there is no
  limit), \<open>h3\<close> once the cursor is read, and the failure may come at any of them.
  Arguments that fail the validation raise a \<^verbatim>\<open>ValueError\<close> as before, with the world
  unchanged.
\<close>

theorem baseline_fail_soft:
  assumes "isinstance_PyMongoError e"
    and "h0 = calls w @ [Find (orig_collection s) (if q0 = PNone then PDict [] else q0) p]"
    and "h1 = h0 @ (case srt of Some (x # xs) \<Rightarrow> [CursorSort (x # xs)] | _ \<Rightarrow> [])"
    and "h2 = h1 @ (if isinstance_int l \<and> gt_zero l then [CursorLimit l] else [])"
    and "h3 = h2 @ [CursorList]"
  shows "(isinstance_dict d \<and> truthy d
            \<and> raises m (calls w @ [InsertOne (orig_collection s) d]) = Some e \<longrightarrow>
          orig_create m s d w
            = (Inr False, print (''[ERROR] Create failed: '' @ str_of e)
                            (w\<lparr>calls := calls w @ [InsertOne (orig_collection s) d]\<rparr>)))
       \<and> (q0 = PNone \<or> isinstance_dict q0 \<longrightarrow>
            (raises m h0 = Some e \<longrightarrow>
               orig_read m s q0 p l srt w
                 = (Inr [], print (''[ERROR] Read failed: '' @ str_of e) (w\<lparr>calls := h0\<rparr>)))
          \<and> (raises m h0 = None \<and> raises m h1 = Some e \<longrightarrow>
               orig_read m s q0 p l srt w
                 = (Inr [], print (''[ERROR] Read failed: '' @ str_of e) (w\<lparr>calls := h1\<rparr>)))
          \<and> (raises m h0 = None \<and> raises m h1 = None \<and> raises m h2 = Some e \<longrightarrow>
               orig_read m s q0 p l srt w
                 = (Inr [], print (''[ERROR] Read failed: '' @ str_of e) (w\<lparr>calls := h2\<rparr>)))
          \<and> (raises m h0 = None \<and> raises m h1 = None \<and> raises m h2 = None
               \<and> raises m h3 = Some e \<longrightarrow>
               orig_read m s q0 p l srt w
                 = (Inr [], print (''[ERROR] Read failed: '' @ str_of e) (w\<lparr>calls := h3\<rparr>))))
       \<and> (isinstance_dict q \<and> isinstance_dict u
            \<and> raises m (calls w @ [if many then UpdateMany (orig_collection s) q u upsert
                                    else UpdateOne (orig_collection s) q u upsert]) = Some e \<longrightarrow>
          orig_update m s q u many upsert w
            = (Inr 0, print (''[ERROR] Update failed: '' @ str_of e)
                        (w\<lparr>calls := calls w @ [if many then UpdateMany (orig_collection s) q u upsert
                                                else UpdateOne (orig_collection s) q u upsert]\<rparr>)))
       \<and> (\<not> isinstance_dict d \<or> \<not> truthy d \<longrightarrow>
          orig_create m s d w = (Inl (ValueError '''data' must be a non-empty dict.''), w))
       \<and> (q0 \<noteq> PNone \<and> \<not> isinstance_dict q0 \<longrightarrow>
          orig_read m s q0 p l srt w = (Inl (ValueError '''query' must be a dict.''), w))
       \<and> (\<not> isinstance_dict q \<or> \<not> isinstance_dict u \<longrightarrow>
          orig_update m s q u many upsert w
            = (Inl (ValueError '''query' and 'update_doc' must be dicts.''), w))"
proof -
  have create: "isinstance_dict d \<and> truthy d
            \<and> raises m (calls w @ [InsertOne (orig_collection s) d]) = Some e \<longrightarrow>
          orig_create m s d w
            = (Inr False, print (''[ERROR] Create failed: '' @ str_of e)
                            (w\<lparr>calls := calls w @ [InsertOne (orig_collection s) d]\<rparr>))"
  proof
    assume a: "isinstance_dict d \<and> truthy d
               \<and> raises m (calls w @ [InsertOne (orig_collection s) d]) = Some e"
    then have "orig_create_try m s d w
                 = (Inl e, w\<lparr>calls := calls w @ [InsertOne (orig_collection s) d]\<rparr>)"
      by (simp add: orig_create_try_fails)
    with a assms(1) show "orig_create m s d w
            = (Inr False, print (''[ERROR] Create failed: '' @ str_of e)
                            (w\<lparr>calls := calls w @ [InsertOne (orig_collection s) d]\<rparr>))"
      by (simp add: orig_create_caught)
  qed
  have update: "isinstance_dict q \<and> isinstance_dict u
            \<and> raises m (calls w @ [if many then UpdateMany (orig_collection s) q u upsert
                                    else UpdateOne (orig_collection s) q u upsert]) = Some e \<longrightarrow>
          orig_update m s q u many upsert w
            = (Inr 0, print (''[ERROR] Update failed: '' @ str_of e)
                        (w\<lparr>calls := calls w @ [if many then UpdateMany (orig_collection s) q u upsert
                                                else UpdateOne (orig_collection s) q u upsert]\<rparr>))"
  proof
    let ?c = "if many then UpdateMany (orig_collection s) q u upsert
              else UpdateOne (orig_collection s) q u upsert"
    assume a: "isinstance_dict q \<and> isinstance_dict u \<and> raises m (calls w @ [?c]) = Some e"
    then have "orig_update_try m s q u many upsert w = (Inl e, w\<lparr>calls := calls w @ [?c]\<rparr>)"
      by (intro orig_update_try_fails) simp_all
    with a assms(1) show "orig_update m s q u many upsert w
            = (Inr 0, print (''[ERROR] Update failed: '' @ str_of e) (w\<lparr>calls := calls w @ [?c]\<rparr>))"
      by (simp add: orig_update_caught)
  qed
  have read: "q0 = PNone \<or> isinstance_dict q0 \<longrightarrow>
            (raises m h0 = Some e \<longrightarrow>
               orig_read m s q0 p l srt w
                 = (Inr [], print (''[ERROR] Read failed: '' @ str_of e) (w\<lparr>calls := h0\<rparr>)))
          \<and> (raises m h0 = None \<and> raises m h1 = Some e \<longrightarrow>
               orig_read m s q0 p l srt w
                 = (Inr [], print (''[ERROR] Read failed: '' @ str_of e) (w\<lparr>calls := h1\<rparr>)))
          \<and> (raises m h0 = None \<and> raises m h1 = None \<and> raises m h2 = Some e \<longrightarrow>
               orig_read m s q0 p l srt w
                 = (Inr [], print (''[ERROR] Read failed: '' @ str_of e) (w\<lparr>calls := h2\<rparr>)))
          \<and> (raises m h0 = None \<and> raises m h1 = None \<and> raises m h2 = None
               \<and> raises m h3 = Some e \<longrightarrow>
               orig_read m s q0 p l srt w
                 = (Inr [], print (''[ERROR] Read failed: '' @ str_of e) (w\<lparr>calls := h3\<rparr>)))"
  proof
    assume v: "q0 = PNone \<or> isinstance_dict q0"
    show "(raises m h0 = Some e \<longrightarrow>
               orig_read m s q0 p l srt w
                 = (Inr [], print (''[ERROR] Read failed: '' @ str_of e) (w\<lparr>calls := h0\<rparr>)))
          \<and> (raises m h0 = None \<and> raises m h1 = Some e \<longrightarrow>
               orig_read m s q0 p l srt w
                 = (Inr [], print (''[ERROR] Read failed: '' @ str_of e) (w\<lparr>calls := h1\<rparr>)))
          \<and> (raises m h0 = None \<and> raises m h1 = None \<and> raises m h2 = Some e \<longrightarrow>
               orig_read m s q0 p l srt w
                 = (Inr [], print (''[ERROR] Read failed: '' @ str_of e) (w\<lparr>calls := h2\<rparr>)))
          \<and> (raises m h0 = None \<and> raises m h1 = None \<and> raises m h2 = None
               \<and> raises m h3 = Some e \<longrightarrow>
               orig_read m s q0 p l srt w
                 = (Inr [], print (''[ERROR] Read failed: '' @ str_of e) (w\<lparr>calls := h3\<rparr>)))"
      by (rule orig_read_soft [OF assms(1) v assms(2-5)])
  qed
  have invalid_create: "\<not> isinstance_dict d \<or> \<not> truthy d \<longrightarrow>
          orig_create m s d w = (Inl (ValueError '''data' must be a non-empty dict.''), w)"
    by (simp add: orig_create_invalid)
  have invalid_read: "q0 \<noteq> PNone \<and> \<not> isinstance_dict q0 \<longrightarrow>
          orig_read m s q0 p l srt w = (Inl (ValueError '''query' must be a dict.''), w)"
    by (simp add: orig_read_invalid)
  have invalid_update: "\<not> isinstance_dict q \<or> \<not> isinstance_dict u \<longrightarrow>
          orig_update m s q u many upsert w
            = (Inl (ValueError '''query' and 'update_doc' must be dicts.''), w)"
    by (simp add: orig_update_invalid)
  from create read update invalid_create invalid_read invalid_update
  show ?thesis by (intro conjI)
qed

text \<open>
  A store that is down, for \<open>create\<close>, \<open>update\<close> and a \<open>read\<close> that fails at
  \<^verbatim>\<open>find\<close>; a store that refuses the limit of a sorted, limited \<open>read\<close>; a store that
  loses the cursor while \<open>read()\<close> reads it; and an empty document, which still raises.
\<close>

theorem baseline_fail_soft_witness:
  "orig_create down_store orig_aac rex empty_world
     = (Inr False, \<lparr>calls = [InsertOne (''aac'', ''animals'') rex],
                    stdout = [''[ERROR] Create failed: connection refused''],
                    logged = [], heap = []\<rparr>)
   \<and> orig_read down_store orig_aac PNone PNone (PInt 0) None empty_world
     = (Inr [], \<lparr>calls = [Find (''aac'', ''animals'') (PDict []) PNone],
                 stdout = [''[ERROR] Read failed: connection refused''],
                 logged = [], heap = []\<rparr>)
   \<and> orig_read limit_fail_store orig_aac rex PNone (PInt 5) (Some [(''name'', 1)]) empty_world
     = (Inr [], \<lparr>calls = [Find (''aac'', ''animals'') rex PNone,
                          CursorSort [(''name'', 1)], CursorLimit (PInt 5)],
                 stdout = [''[ERROR] Read failed: bad limit''],
                 logged = [], heap = []\<rparr>)
   \<and> orig_read lost_cursor_store orig_aac PNone PNone (PInt 0) None empty_world
     = (Inr [], \<lparr>calls = [Find (''aac'', ''animals'') (PDict []) PNone, CursorList],
                 stdout = [''[ERROR] Read failed: cursor lost''],
                 logged = [], heap = []\<rparr>)
   \<and> orig_update down_store orig_aac rex set_age True False empty_world
     = (Inr 0, \<lparr>calls = [UpdateMany (''aac'', ''animals'') rex set_age False],
                stdout = [''[ERROR] Update failed: connection refused''],
                logged = [], heap = []\<rparr>)
   \<and> orig_create down_store orig_aac (PDict []) empty_world
     = (Inl (ValueError '''data' must be a non-empty dict.''), empty_world)"
proof -
  have down: "isinstance_PyMongoError (PyMongoError ''connection refused'')" by simp
  have limit: "isinstance_PyMongoError (PyMongoError ''bad limit'')" by simp
  have lost: "isinstance_PyMongoError (PyMongoError ''cursor lost'')" by simp
  note d = baseline_fail_soft [where e = "PyMongoError ''connection refused''" and m = down_store
             and w = empty_world and s = orig_aac and ?q0.0 = PNone and p = PNone
             and srt = None and l = "PInt 0" and d = rex and q = rex and u = set_age
             and many = True and upsert = False, OF down refl refl refl refl]
  note k = baseline_fail_soft [where e = "PyMongoError ''bad limit''" and m = limit_fail_store
             and w = empty_world and s = orig_aac and ?q0.0 = rex and p = PNone
             and srt = "Some [(''name'', 1)]" and l = "PInt 5" and d = "PDict []" and q = rex
             and u = set_age and many = True and upsert = False, OF limit refl refl refl refl]
  note l = baseline_fail_soft [where e = "PyMongoError ''cursor lost''" and m = lost_cursor_store
             and w = empty_world and s = orig_aac and ?q0.0 = PNone and p = PNone
             and srt = None and l = "PInt 0" and d = "PDict []" and q = rex and u = set_age
             and many = True and upsert = False, OF lost refl refl refl refl]
  note z = baseline_fail_soft [where e = "PyMongoError ''connection refused''" and m = down_store
             and w = empty_world and s = orig_aac and ?q0.0 = PNone and p = PNone
             and srt = None and l = "PInt 0" and d = "PDict []" and q = rex and u = set_age
             and many = True and upsert = False, OF down refl refl refl refl]
  have c: "orig_create down_store orig_aac rex empty_world
     = (Inr False, \<lparr>calls = [InsertOne (''aac'', ''animals'') rex],
                    stdout = [''[ERROR] Create failed: connection refused''],
                    logged = [], heap = []\<rparr>)"
    using d [THEN conjunct1]
    by (simp add: print_def down_store_def rex_def orig_aac_def empty_world_def)
  have r0: "orig_read down_store orig_aac PNone PNone (PInt 0) None empty_world
     = (Inr [], \<lparr>calls = [Find (''aac'', ''animals'') (PDict []) PNone],
                 stdout = [''[ERROR] Read failed: connection refused''],
                 logged = [], heap = []\<rparr>)"
    using d [THEN conjunct2, THEN conjunct1]
    by (simp add: print_def down_store_def orig_aac_def empty_world_def)
  have r2: "orig_read limit_fail_store orig_aac rex PNone (PInt 5) (Some [(''name'', 1)]) empty_world
     = (Inr [], \<lparr>calls = [Find (''aac'', ''animals'') rex PNone,
                          CursorSort [(''name'', 1)], CursorLimit (PInt 5)],
                 stdout = [''[ERROR] Read failed: bad limit''],
                 logged = [], heap = []\<rparr>)"
    using k [THEN conjunct2, THEN conjunct1]
    by (simp add: print_def limit_fail_store_def rex_def orig_aac_def empty_world_def)
  have r3: "orig_read lost_cursor_store orig_aac PNone PNone (PInt 0) None empty_world
     = (Inr [], \<lparr>calls = [Find (''aac'', ''animals'') (PDict []) PNone, CursorList],
                 stdout = [''[ERROR] Read failed: cursor lost''],
                 logged = [], heap = []\<rparr>)"
    using l [THEN conjunct2, THEN conjunct1]
    by (simp add: print_def lost_cursor_store_def orig_aac_def empty_world_def)
  have u: "orig_update down_store orig_aac rex set_age True False empty_world
     = (Inr 0, \<lparr>calls = [UpdateMany (''aac'', ''animals'') rex set_age False],
                stdout = [''[ERROR] Update failed: connection refused''],
                logged = [], heap = []\<rparr>)"
    using d [THEN conjunct2, THEN conjunct2, THEN conjunct1]
    by (simp add: print_def down_store_def rex_def set_age_def orig_aac_def empty_world_def)
  have v: "orig_create down_store orig_aac (PDict []) empty_world
     = (Inl (ValueError '''data' must be a non-empty dict.''), empty_world)"
    using z [THEN conjunct2, THEN conjunct2, THEN conjunct2, THEN conjunct1]
    by simp
  from c r0 r2 r3 u v show ?thesis by (intro conjI)
qed


section \<open>Cleaning the documents that read returns\<close>

lemma clean_loop_eq:
  "\<forall>r\<in>set docs. r < length h \<Longrightarrow>
   clean_loop docs cleaned h
     = (cleaned @ [length h ..< length h + length docs],
        h @ map (\<lambda>r. AList.delete ''_id'' (h ! r)) docs)"
proof (induction docs arbitrary: cleaned h)
  case Nil
  then show ?case by simp
next
  case (Cons doc docs)
  let ?d = "AList.delete ''_id'' (h ! doc)"
  let ?h2 = "h @ [?d]"
  have step: "(h @ [h ! doc])[length h := AList.delete ''_id'' ((h @ [h ! doc]) ! length h)] = ?h2"
    by simp
  have live: "\<forall>r\<in>set docs. r < length ?h2"
    using Cons.prems by auto
  have same: "map (\<lambda>r. AList.delete ''_id'' (?h2 ! r)) docs
                = map (\<lambda>r. AList.delete ''_id'' (h ! r)) docs"
    using Cons.prems by (auto simp: nth_append)
  have addrs: "length h # [Suc (length h) ..< Suc (length h + length docs)]
                 = [length h ..< Suc (length h + length docs)]"
    by (rule upt_conv_Cons [symmetric]) simp
  have "clean_loop (doc # docs) cleaned h = clean_loop docs (cleaned @ [length h]) ?h2"
    by (simp add: Let_def step del: list_update.simps)
  also have "\<dots> = ((cleaned @ [length h]) @ [length ?h2 ..< length ?h2 + length docs],
                    ?h2 @ map (\<lambda>r. AList.delete ''_id'' (?h2 ! r)) docs)"
    by (rule Cons.IH [OF live])
  also have "\<dots> = (cleaned @ [length h ..< length h + length (doc # docs)],
                    h @ map (\<lambda>r. AList.delete ''_id'' (h ! r)) (doc # docs))"
    unfolding same using addrs by simp
  finally show ?case .
qed

lemma clean_results_eq:
  "\<forall>r\<in>set docs. r < length (heap w) \<Longrightarrow>
   clean_results docs w
     = ([length (heap w) ..< length (heap w) + length docs],
        w\<lparr>heap := heap w @ map (\<lambda>r. AList.delete ''_id'' (heap w ! r)) docs\<rparr>)"
  by (simp add: clean_results_def clean_loop_eq)

text \<open>
  C10. \<open>_clean_results\<close>, given the addresses of live dict objects, changes none of the
  objects that existed before the call (so every input document keeps all its fields,
  \<^verbatim>\<open>_id\<close> too), and touches neither the store nor the output. It returns one address
  for each input, each of a dict allocated by the call (at or beyond the old end of
  the heap, so no input is among them, and no two are the same) that holds the fields of
  the input at that position but \<^verbatim>\<open>_id\<close>.
\<close>

theorem clean_results_fresh_copies:
  assumes "\<forall>r\<in>set docs. r < length (heap w)"
    and "clean_results docs w = (cleaned, w')"
  shows "length cleaned = length docs
       \<and> take (length (heap w)) (heap w') = heap w
       \<and> (\<forall>r\<in>set docs. heap w' ! r = heap w ! r)
       \<and> (\<forall>i<length docs.
            length (heap w) \<le> cleaned ! i \<and> cleaned ! i < length (heap w')
            \<and> heap w' ! (cleaned ! i) = AList.delete ''_id'' (heap w ! (docs ! i)))
       \<and> distinct cleaned
       \<and> calls w' = calls w \<and> stdout w' = stdout w \<and> logged w' = logged w"
proof -
  let ?n = "length (heap w)"
  let ?new = "map (\<lambda>r. AList.delete ''_id'' (heap w ! r)) docs"
  from assms(2) clean_results_eq [OF assms(1)]
  have c: "cleaned = [?n ..< ?n + length docs]" and w': "w' = w\<lparr>heap := heap w @ ?new\<rparr>"
    by simp_all
  have h: "heap w' = heap w @ ?new" by (simp add: w')
  have "\<forall>r\<in>set docs. heap w' ! r = heap w ! r"
    using assms(1) by (simp add: h nth_append)
  moreover have "\<forall>i<length docs.
            ?n \<le> cleaned ! i \<and> cleaned ! i < length (heap w')
            \<and> heap w' ! (cleaned ! i) = AList.delete ''_id'' (heap w ! (docs ! i))"
    by (simp add: c h nth_append)
  ultimately show ?thesis
    by (simp add: c h w')
qed

lemma clean_results_two_docs:
  "clean_results [0, 1, 0] two_docs
     = ([2, 3, 4],
        two_docs\<lparr>heap := [[(''_id'', PObjectId ''65a1''), (''name'', PStr ''Rex'')],
                           [(''name'', PStr ''Tom'')],
                           [(''name'', PStr ''Rex'')],
                           [(''name'', PStr ''Tom'')],
                           [(''name'', PStr ''Rex'')]]\<rparr>)"
  by (simp add: clean_results_def two_docs_def AList.delete_eq)

text \<open>Two documents, the first given twice: three new dicts, the two old ones as they were.\<close>

theorem clean_results_fresh_copies_witness:
  "clean_results [0, 1, 0] two_docs
     = ([2, 3, 4],
        two_docs\<lparr>heap := [[(''_id'', PObjectId ''65a1''), (''name'', PStr ''Rex'')],
                           [(''name'', PStr ''Tom'')],
                           [(''name'', PStr ''Rex'')],
                           [(''name'', PStr ''Tom'')],
                           [(''name'', PStr ''Rex'')]]\<rparr>)
   \<and> take (length (heap two_docs))
        (heap (two_docs\<lparr>heap := [[(''_id'', PObjectId ''65a1''), (''name'', PStr ''Rex'')],
                           [(''name'', PStr ''Tom'')],
                           [(''name'', PStr ''Rex'')],
                           [(''name'', PStr ''Tom'')],
                           [(''name'', PStr ''Rex'')]]\<rparr>))
       = heap two_docs
   \<and> distinct [2, 3, 4 :: nat]"
  using clean_results_fresh_copies [OF _ clean_results_two_docs] clean_results_two_docs
  by (simp add: two_docs_def)

lemma clean_new_dicts:
  "new_dicts ds w = (raw, w4) \<Longrightarrow>
   clean_results raw w4
     = ([length (heap w) + length ds ..< length (heap w) + length ds + length ds],
        w4\<lparr>heap := heap w @ ds @ map (AList.delete ''_id'') ds\<rparr>)"
proof -
  assume n: "new_dicts ds w = (raw, w4)"
  then have raw: "raw = [length (heap w) ..< length (heap w) + length ds]"
    and h4: "heap w4 = heap w @ ds"
    by (auto simp: new_dicts_def)
  have live: "\<forall>r\<in>set raw. r < length (heap w4)"
    by (simp add: raw h4)
  have "map (\<lambda>r. AList.delete ''_id'' (heap w4 ! r)) raw = map (AList.delete ''_id'') ds"
    by (rule nth_equalityI) (simp_all add: raw h4 nth_append)
  then show ?thesis
    by (simp add: clean_results_eq [OF live] h4) (simp add: raw)
qed

lemma read_results:
  "(let (raw_results, w4) = new_dicts ds w3;
        (results, w5) = clean_results raw_results w4
    in (Inr results :: error + nat list,
        logger INFO ''Read %d document(s) from collection'' [AInt (int (length results))] w5))
     = (Inr refs, w') \<Longrightarrow>
   refs = [length (heap w3) + length ds ..< length (heap w3) + length ds + length ds]
   \<and> heap w' = heap w3 @ ds @ map (AList.delete ''_id'') ds
   \<and> calls w' = calls w3"
proof -
  obtain raw w4 where n: "new_dicts ds w3 = (raw, w4)"
    by (cases "new_dicts ds w3")
  have c4: "calls w4 = calls w3"
    using calls_new_dicts [of ds w3] n by simp
  assume "(let (raw_results, w4) = new_dicts ds w3;
        (results, w5) = clean_results raw_results w4
    in (Inr results :: error + nat list,
        logger INFO ''Read %d document(s) from collection'' [AInt (int (length results))] w5))
     = (Inr refs, w')"
  then show ?thesis
    by (auto simp: n clean_new_dicts [OF n] c4)
qed

lemma heap_at_new:
  assumes "h' = h0 @ ds @ map (AList.delete ''_id'') ds"
    and "r \<in> set [length h0 + length ds ..< length h0 + length ds + length ds]"
  shows "r < length h' \<and> ''_id'' \<notin> fst ` set (h' ! r)"
proof -
  from assms(2) obtain i where i: "i < length ds" and r: "r = length h0 + length ds + i"
    by (auto simp: le_iff_add)
  have "h' ! r = AList.delete ''_id'' (ds ! i)"
    using i by (simp add: assms(1) r nth_append)
  then show ?thesis
    using i by (simp add: assms(1) r delete_notin_dom)
qed

lemma enh_read_try_tail:
  assumes "enh_read_try m s q p l srt w = (Inr refs, w')"
  shows "\<exists>w3. heap w3 = heap w
          \<and> (let (raw_results, w4) = new_dicts (documents m (calls w3)) w3;
                  (results, w5) = clean_results raw_results w4
              in (Inr results :: error + nat list,
                  logger INFO ''Read %d document(s) from collection''
                    [AInt (int (length results))] w5))
             = (Inr refs, w')"
proof -
  from assms obtain c where c: "enh_collection s = Inr c"
    by (cases "enh_collection s") (simp_all add: enh_read_try_def)
  obtain r0 w0 where s0: "store_call m (Find c q p) w = (r0, w0)"
    by (cases "store_call m (Find c q p) w")
  have h0: "heap w0 = heap w" using s0 by (rule store_call_heapD)
  from assms c s0 have r0: "r0 = None"
    by (cases r0) (simp_all add: enh_read_try_def)
  obtain r1 w1 where s1: "(case srt of Some (x # xs) \<Rightarrow> store_call m (CursorSort (x # xs)) w0
                                       | _ \<Rightarrow> (None, w0)) = (r1, w1)"
    by (cases "(case srt of Some (x # xs) \<Rightarrow> store_call m (CursorSort (x # xs)) w0
                          | _ \<Rightarrow> (None, w0))")
  have h1: "heap w1 = heap w0"
    using s1 by (auto split: option.splits list.splits dest: store_call_heapD)
  from assms c s0 r0 s1 have r1: "r1 = None"
    by (cases r1) (simp_all add: enh_read_try_def)
  obtain r2 w2 where s2: "(if isinstance_int l \<and> gt_zero l
                           then store_call m (CursorLimit l) w1 else (None, w1)) = (r2, w2)"
    by (cases "(if isinstance_int l \<and> gt_zero l
                then store_call m (CursorLimit l) w1 else (None, w1))")
  have h2: "heap w2 = heap w1"
    using s2 by (auto split: if_splits dest: store_call_heapD)
  from assms c s0 r0 s1 r1 s2 have r2: "r2 = None"
    by (cases r2) (simp_all add: enh_read_try_def)
  obtain r3 w3 where s3: "store_call m CursorList w2 = (r3, w3)"
    by (cases "store_call m CursorList w2")
  have h3: "heap w3 = heap w2" using s3 by (rule store_call_heapD)
  from assms c s0 r0 s1 r1 s2 r2 s3 have r3: "r3 = None"
    by (cases r3) (simp_all add: enh_read_try_def)
  from assms c s0 r0 s1 r1 s2 r2 s3 r3
  have "(let (raw_results, w4) = new_dicts (documents m (calls w3)) w3;
             (results, w5) = clean_results raw_results w4
         in (Inr results :: error + nat list,
             logger INFO ''Read %d document(s) from collection''
               [AInt (int (length results))] w5))
        = (Inr refs, w')"
    by (simp add: enh_read_try_def)
  moreover have "heap w3 = heap w" by (simp add: h0 h1 h2 h3)
  ultimately show ?thesis by blast
qed

lemma enh_read_success_try:
  "enh_read m s q0 p l srt w = (Inr refs, w') \<Longrightarrow>
   enh_read_try m s (if q0 = PNone then PDict [] else q0) p l srt w = (Inr refs, w')"
  by (auto simp: enh_read_def Let_def split: if_splits sum.splits prod.splits)

text \<open>
  C2. Whenever the enhanced \<open>read\<close> returns, whatever the query, the projection, the
  limit and the sort are and whatever the store answers, every address it returns is that of
  a live dict that has no \<^verbatim>\<open>_id\<close> field; read in order, the dicts returned are the
  documents the cursor yielded, each without its \<^verbatim>\<open>_id\<close>.
\<close>

theorem enh_read_strips_id:
  assumes "enh_read m s q0 p l srt w = (Inr refs, w')"
  shows "(\<forall>r\<in>set refs. r < length (heap w') \<and> ''_id'' \<notin> fst ` set (heap w' ! r))
       \<and> map (\<lambda>r. heap w' ! r) refs = map (AList.delete ''_id'') (documents m (calls w'))"
proof -
  from enh_read_try_tail [OF enh_read_success_try [OF assms]]
  obtain w3 where h3: "heap w3 = heap w"
    and t: "(let (raw_results, w4) = new_dicts (documents m (calls w3)) w3;
                 (results, w5) = clean_results raw_results w4
             in (Inr results :: error + nat list,
                 logger INFO ''Read %d document(s) from collection''
                   [AInt (int (length results))] w5))
            = (Inr refs, w')"
    by blast
  let ?ds = "documents m (calls w3)"
  let ?n = "length (heap w3) + length ?ds"
  from read_results [OF t]
  have refs: "refs = [?n ..< ?n + length ?ds]"
    and h': "heap w' = heap w3 @ ?ds @ map (AList.delete ''_id'') ?ds"
    and c': "calls w' = calls w3"
    by simp_all
  have clean: "\<forall>r\<in>set refs. r < length (heap w') \<and> ''_id'' \<notin> fst ` set (heap w' ! r)"
    using heap_at_new [OF h'] by (simp only: refs) blast
  have "map (\<lambda>r. heap w' ! r) refs = map (AList.delete ''_id'') ?ds"
    by (rule nth_equalityI) (simp_all add: refs h' nth_append)
  with clean show ?thesis by (simp add: c')
qed

lemma enh_read_all:
  "enh_read ok_store enh_aac PNone PNone (PInt 5) (Some [(''name'', 1)]) empty_world
     = (Inr [2, 3], read_all_world)"
  by (simp add: enh_read_def enh_read_try_def enh_collection_def store_call_def logger_def
        new_dicts_def clean_results_def AList.delete_eq read_all_world_def fixtures)

text \<open>A read of everything, sorted and limited, from a store that holds two documents.\<close>

theorem enh_read_strips_id_witness:
  "enh_read ok_store enh_aac PNone PNone (PInt 5) (Some [(''name'', 1)]) empty_world
     = (Inr [2, 3], read_all_world)
   \<and> ''_id'' \<notin> fst ` set (heap read_all_world ! 2)
   \<and> ''_id'' \<notin> fst ` set (heap read_all_world ! 3)
   \<and> map (\<lambda>r. heap read_all_world ! r) [2, 3]
       = [[(''name'', PStr ''Rex'')], [(''name'', PStr ''Tom'')]]"
  using enh_read_strips_id [OF enh_read_all] enh_read_all
  by (simp add: read_all_world_def ok_store_def AList.delete_eq)


end
